theory Spec2Isabelle
  imports Main "HOL-Library.Sublist"
begin

section \<open>Python values\<close>

text \<open>
  The dictionaries handled by the adapter and by the dispatcher hold values of type
  \<^verbatim>\<open>Any\<close>. The values modelled are \<^verbatim>\<open>None\<close>, booleans, integers, strings, lists and
  dictionaries with string keys (an association list, looked up with \<^const>\<open>map_of\<close>).
  A string is a list of characters; a character stands for a code point below 256.
\<close>

datatype pyval =
    PNone
  | PBool bool
  | PInt int
  | PStr string
  | PList "pyval list"
  | PDict "(string \<times> pyval) list"

text \<open>Truth value of an object, as tested by \<^verbatim>\<open>if x\<close> and \<^verbatim>\<open>not x\<close>.\<close>

fun truthy :: "pyval \<Rightarrow> bool" where
  "truthy PNone = False"
| "truthy (PBool b) = b"
| "truthy (PInt i) = (i \<noteq> 0)"
| "truthy (PStr s) = (s \<noteq> [])"
| "truthy (PList xs) = (xs \<noteq> [])"
| "truthy (PDict d) = (d \<noteq> [])"

text \<open>\<^verbatim>\<open>sep.join(xs)\<close>.\<close>

fun join :: "string \<Rightarrow> string list \<Rightarrow> string" where
  "join sep [] = []"
| "join sep [x] = x"
| "join sep (x # y # ys) = x @ sep @ join sep (y # ys)"

section \<open>Exceptions\<close>

text \<open>
  The exceptions that the modelled code raises or lets through. \<open>ValueError\<close> and
  \<open>AttributeError\<close> carry their message; the four \<^verbatim>\<open>OSError\<close> subclasses carry the file
  name the operating system reported.
\<close>

datatype exn =
    ValueError string
  | AttributeError string
  | FileNotFoundError string
  | FileExistsError string
  | NotADirectoryError string
  | IsADirectoryError string

text \<open>
  \<^verbatim>\<open>str(e)\<close>. For an \<^verbatim>\<open>OSError\<close> this is \<^verbatim>\<open>[Errno n] message: 'filename'\<close>; the file
  name is quoted as \<^verbatim>\<open>repr\<close> does for a name without quotes, backslashes or control
  characters.
\<close>

definition quoted :: "string \<Rightarrow> string" where
  "quoted s = [CHR 0x27] @ s @ [CHR 0x27]"

fun str_exn :: "exn \<Rightarrow> string" where
  "str_exn (ValueError m) = m"
| "str_exn (AttributeError m) = m"
| "str_exn (FileNotFoundError f) = ''[Errno 2] No such file or directory: '' @ quoted f"
| "str_exn (FileExistsError f) = ''[Errno 17] File exists: '' @ quoted f"
| "str_exn (NotADirectoryError f) = ''[Errno 20] Not a directory: '' @ quoted f"
| "str_exn (IsADirectoryError f) = ''[Errno 21] Is a directory: '' @ quoted f"

section \<open>Paths, the file system and the clock\<close>

text \<open>
  A path is the tuple \<^verbatim>\<open>parts\<close> of a POSIX \<^verbatim>\<open>pathlib.Path\<close>: the root, when there is
  one, is the first component. \<open>path_child p name\<close> is \<^verbatim>\<open>p / name\<close> for a name of one
  component, which is all the code ever appends (\<^verbatim>\<open>"docs"\<close>, \<^verbatim>\<open>"diagrams"\<close> and file
  names built from a \<^verbatim>\<open>strftime\<close> result).
\<close>

type_synonym path = "string list"

definition path_child :: "path \<Rightarrow> string \<Rightarrow> path" where
  "path_child p name = p @ [name]"

definition parent :: "path \<Rightarrow> path" where
  "parent p = butlast p"

fun path_str :: "path \<Rightarrow> string" where
  "path_str [] = ''.''"
| "path_str (r # ps) = (if r \<noteq> [] \<and> hd r = CHR ''/'' then r @ join ''/'' ps else join ''/'' (r # ps))"

text \<open>
  The world the code acts on: the directories and the regular files (with their text) of
  the file system, and the clock. \<open>clock w n\<close> is what
  \<^verbatim>\<open>datetime.now().strftime("%Y%m%d_%H%M%S")\<close> returns at the \<open>n\<close>-th reading; every
  generator reads the clock for itself, so one request may see two different stamps.
  Logging is not part of the model.
\<close>

record world =
  dirs :: "path set"
  files :: "path \<rightharpoonup> string"
  clock :: "nat \<Rightarrow> string"
  ticks :: nat

definition now_stamp :: "world \<Rightarrow> string \<times> world" where
  "now_stamp w = (clock w (ticks w), w\<lparr>ticks := Suc (ticks w)\<rparr>)"

text \<open>
  \<^verbatim>\<open>p.mkdir(exist_ok=True)\<close>: an existing directory is left alone, an existing file is
  an error, and the parent must be a directory (\<^verbatim>\<open>parents\<close> is not set).
\<close>

definition mkdir_exist_ok :: "path \<Rightarrow> world \<Rightarrow> (exn + unit) \<times> world" where
  "mkdir_exist_ok p w =
     (if p \<in> dirs w then (Inr (), w)
      else if p \<in> dom (files w) then (Inl (FileExistsError (path_str p)), w)
      else if parent p \<in> dirs w then (Inr (), w\<lparr>dirs := insert p (dirs w)\<rparr>)
      else if parent p \<in> dom (files w) then (Inl (NotADirectoryError (path_str p)), w)
      else (Inl (FileNotFoundError (path_str p)), w))"

text \<open>
  \<^verbatim>\<open>with open(p, 'w', encoding='utf-8') as f: f.write(text)\<close>: the file is created or
  truncated and holds \<open>text\<close> afterwards. Permissions and full disks are not modelled.
\<close>

definition write_text :: "path \<Rightarrow> string \<Rightarrow> world \<Rightarrow> (exn + unit) \<times> world" where
  "write_text p text w =
     (if p \<in> dirs w then (Inl (IsADirectoryError (path_str p)), w)
      else if parent p \<in> dirs w then (Inr (), w\<lparr>files := (files w)(p \<mapsto> text)\<rparr>)
      else if parent p \<in> dom (files w) then (Inl (NotADirectoryError (path_str p)), w)
      else (Inl (FileNotFoundError (path_str p)), w))"

section \<open>The chat mode: \<^verbatim>\<open>HighLevelArchitectChatMode\<close>\<close>

text \<open>
  The object built by \<^verbatim>\<open>__init__\<close>; \<^verbatim>\<open>Path(workspace_path)\<close> is taken as already
  parsed into its parts. Of the configuration only the \<^verbatim>\<open>constraints\<close> mapping is kept:
  no method reads the configuration.
\<close>

record chatmode =
  workspace_path :: path
  docs_folder :: path
  diagrams_folder :: path
  config_constraints :: "(string \<times> pyval) list"

definition load_config_constraints :: "(string \<times> pyval) list" where
  "load_config_constraints =
     [(''preferredDocsFolder'', PStr ''docs/''),
      (''diagramFolder'', PStr ''docs/diagrams/''),
      (''diagramDefaultMode'', PStr ''file''),
      (''enforceDiagramEngine'', PStr ''mermaid''),
      (''noOtherDiagramFormats'', PBool True),
      (''defaultFormat'', PStr ''markdown''),
      (''footerRequired'', PBool True),
      (''footerTemplate'', PStr ''_Generated with GitHub Copilot as directed by {USER_NAME_PLACEHOLDER}''),
      (''noGuessing'', PBool True),
      (''iterationUntilComplete'', PBool True)]"

definition init_chatmode :: "path \<Rightarrow> chatmode" where
  "init_chatmode ws =
     \<lparr>workspace_path = ws,
      docs_folder = path_child ws ''docs'',
      diagrams_folder = path_child (path_child ws ''docs'') ''diagrams'',
      config_constraints = load_config_constraints\<rparr>"

definition ensure_directories :: "chatmode \<Rightarrow> world \<Rightarrow> (exn + unit) \<times> world" where
  "ensure_directories self w =
     (case mkdir_exist_ok (docs_folder self) w of
        (Inl e, w1) \<Rightarrow> (Inl e, w1)
      | (Inr _, w1) \<Rightarrow> mkdir_exist_ok (diagrams_folder self) w1)"

definition scan_codebase :: "chatmode \<Rightarrow> string \<Rightarrow> pyval" where
  "scan_codebase self targets =
     PDict [(''files_found'', PList []), (''components'', PList []),
            (''interfaces'', PList []), (''dependencies'', PList [])]"

definition generate_footer :: "string \<Rightarrow> string" where
  "generate_footer user_name = ''_Generated with GitHub Copilot as directed by '' @ user_name @ ''_''"

subsection \<open>The text templates\<close>

text \<open>
  Each template is the f-string of the source, one source line per row. The templates of
  the sequence, class, entity-relationship and state diagrams and of the test-case,
  gap-scan and use-case documents are written inside their generators in the source;
  here each has a name of its own.
\<close>

definition create_flowchart_content :: "string \<Rightarrow> string \<Rightarrow> string \<Rightarrow> string" where
  "create_flowchart_content prompt targets depth =
     ''flowchart TD\<newline>'' @
     ''    A[Start: '' @ prompt @ ''] --> B[Initialize '' @ targets @ '']\<newline>'' @
     ''    B --> C[Process Input]\<newline>'' @
     ''    C --> D{Validate Input}\<newline>'' @
     ''    D -->|Valid| E[Execute Business Logic]\<newline>'' @
     ''    D -->|Invalid| F[Return Error]\<newline>'' @
     ''    E --> G[Process Data]\<newline>'' @
     ''    G --> H[Generate Response]\<newline>'' @
     ''    H --> I[End: Success]\<newline>'' @
     ''    F --> J[End: Error]\<newline>'' @
     ''    \<newline>'' @
     ''    subgraph \"Core Processing\"\<newline>'' @
     ''        E\<newline>'' @
     ''        G\<newline>'' @
     ''    end\<newline>'' @
     ''    \<newline>'' @
     ''    subgraph \"Error Handling\"\<newline>'' @
     ''        F\<newline>'' @
     ''        J\<newline>'' @
     ''    end\<newline>'' @
     ''    \<newline>'' @
     ''    style A fill:#e1f5fe\<newline>'' @
     ''    style I fill:#c8e6c9\<newline>'' @
     ''    style J fill:#ffcdd2\<newline>''"

definition sequence_content :: "string \<Rightarrow> string \<Rightarrow> string \<Rightarrow> string" where
  "sequence_content prompt targets user_name =
     ''sequenceDiagram\<newline>'' @
     ''    participant User\<newline>'' @
     ''    participant System\<newline>'' @
     ''    participant '' @ targets @ ''\<newline>'' @
     ''    \<newline>'' @
     ''    User->>System: '' @ prompt @ ''\<newline>'' @
     ''    System->>'' @ targets @ '': Process Request\<newline>'' @
     ''    '' @ targets @ ''->>System: Return Result\<newline>'' @
     ''    System->>User: Provide Response\<newline>'' @
     ''    \<newline>'' @
     ''    Note over User,'' @ targets @ '': '' @ generate_footer user_name @ ''\<newline>''"

definition class_content :: "string \<Rightarrow> string \<Rightarrow> string" where
  "class_content targets user_name =
     ''classDiagram\<newline>'' @
     ''    class '' @ targets @ '' {\<newline>'' @
     ''        +attributes\<newline>'' @
     ''        +methods()\<newline>'' @
     ''    }\<newline>'' @
     ''    \<newline>'' @
     ''    class Component {\<newline>'' @
     ''        +process()\<newline>'' @
     ''        +validate()\<newline>'' @
     ''    }\<newline>'' @
     ''    \<newline>'' @
     ''    '' @ targets @ '' --> Component : uses\<newline>'' @
     ''    \<newline>'' @
     ''    note \"'' @ generate_footer user_name @ ''\"\<newline>''"

definition er_content :: "string \<Rightarrow> string" where
  "er_content user_name =
     ''erDiagram\<newline>'' @
     ''    Entity1 ||--o{ Entity2 : relationship\<newline>'' @
     ''    Entity1 {\<newline>'' @
     ''        string id PK\<newline>'' @
     ''        string name\<newline>'' @
     ''    }\<newline>'' @
     ''    Entity2 {\<newline>'' @
     ''        string id PK\<newline>'' @
     ''        string entity1_id FK\<newline>'' @
     ''        string data\<newline>'' @
     ''    }\<newline>'' @
     ''    \<newline>'' @
     ''    note \"'' @ generate_footer user_name @ ''\"\<newline>''"

definition state_content :: "string \<Rightarrow> string \<Rightarrow> string" where
  "state_content prompt user_name =
     ''stateDiagram-v2\<newline>'' @
     ''    [*] --> Initial\<newline>'' @
     ''    Initial --> Processing : '' @ prompt @ ''\<newline>'' @
     ''    Processing --> Complete : Success\<newline>'' @
     ''    Processing --> Error : Failure\<newline>'' @
     ''    Error --> Processing : Retry\<newline>'' @
     ''    Complete --> [*]\<newline>'' @
     ''    \<newline>'' @
     ''    note \"'' @ generate_footer user_name @ ''\"\<newline>''"

definition testcases_content :: "string \<Rightarrow> string \<Rightarrow> string \<Rightarrow> string" where
  "testcases_content prompt targets user_name =
     ''# Test Cases for '' @ targets @ ''\<newline>'' @
     ''\<newline>'' @
     ''## Overview\<newline>'' @
     ''Test cases generated for: '' @ prompt @ ''\<newline>'' @
     ''\<newline>'' @
     ''## Test Categories\<newline>'' @
     ''\<newline>'' @
     ''### 1. Unit Tests\<newline>'' @
     ''- Component functionality tests\<newline>'' @
     ''- Input validation tests\<newline>'' @
     ''- Error handling tests\<newline>'' @
     ''\<newline>'' @
     ''### 2. Integration Tests\<newline>'' @
     ''- System integration tests\<newline>'' @
     ''- API endpoint tests\<newline>'' @
     ''- Data flow tests\<newline>'' @
     ''\<newline>'' @
     ''### 3. Performance Tests\<newline>'' @
     ''- Load testing\<newline>'' @
     ''- Stress testing\<newline>'' @
     ''- Scalability testing\<newline>'' @
     ''\<newline>'' @
     ''## Test Cases\<newline>'' @
     ''\<newline>'' @
     ''### TC001 - Basic Functionality\<newline>'' @
     ''**Objective**: Verify basic functionality of '' @ targets @ ''\<newline>'' @
     ''**Prerequisites**: System is running\<newline>'' @
     ''**Steps**:\<newline>'' @
     ''1. Initialize '' @ targets @ ''\<newline>'' @
     ''2. Execute primary function\<newline>'' @
     ''3. Verify expected output\<newline>'' @
     ''\<newline>'' @
     ''**Expected Result**: System responds correctly\<newline>'' @
     ''\<newline>'' @
     ''### TC002 - Error Handling\<newline>'' @
     ''**Objective**: Verify error handling in '' @ targets @ ''\<newline>'' @
     ''**Prerequisites**: System is running\<newline>'' @
     ''**Steps**:\<newline>'' @
     ''1. Provide invalid input\<newline>'' @
     ''2. Observe system response\<newline>'' @
     ''3. Verify error message\<newline>'' @
     ''\<newline>'' @
     ''**Expected Result**: Appropriate error message displayed\<newline>'' @
     ''\<newline>'' @
     generate_footer user_name @ ''\<newline>''"

definition gapscan_content :: "string \<Rightarrow> string \<Rightarrow> string \<Rightarrow> string" where
  "gapscan_content prompt targets user_name =
     ''# Gap Analysis for '' @ targets @ ''\<newline>'' @
     ''\<newline>'' @
     ''## Executive Summary\<newline>'' @
     ''Gap analysis conducted for: '' @ prompt @ ''\<newline>'' @
     ''\<newline>'' @
     ''## Current State Assessment\<newline>'' @
     ''\<newline>'' @
     ''### Strengths\<newline>'' @
     ''- Existing functionality\<newline>'' @
     ''- Working components\<newline>'' @
     ''- Established patterns\<newline>'' @
     ''\<newline>'' @
     ''### Identified Gaps\<newline>'' @
     ''\<newline>'' @
     ''#### 1. Documentation Gaps\<newline>'' @
     ''- Missing API documentation\<newline>'' @
     ''- Incomplete user guides\<newline>'' @
     ''- Outdated technical specifications\<newline>'' @
     ''\<newline>'' @
     ''#### 2. Testing Gaps\<newline>'' @
     ''- Insufficient test coverage\<newline>'' @
     ''- Missing integration tests\<newline>'' @
     ''- No performance benchmarks\<newline>'' @
     ''\<newline>'' @
     ''#### 3. Architecture Gaps\<newline>'' @
     ''- Unclear component boundaries\<newline>'' @
     ''- Missing error handling\<newline>'' @
     ''- Scalability concerns\<newline>'' @
     ''\<newline>'' @
     ''#### 4. Security Gaps\<newline>'' @
     ''- Authentication mechanisms\<newline>'' @
     ''- Authorization controls\<newline>'' @
     ''- Data protection measures\<newline>'' @
     ''\<newline>'' @
     ''## Recommendations\<newline>'' @
     ''\<newline>'' @
     ''### High Priority\<newline>'' @
     ''1. Implement comprehensive testing strategy\<newline>'' @
     ''2. Create detailed API documentation\<newline>'' @
     ''3. Establish error handling patterns\<newline>'' @
     ''\<newline>'' @
     ''### Medium Priority\<newline>'' @
     ''1. Improve component architecture\<newline>'' @
     ''2. Add security measures\<newline>'' @
     ''3. Performance optimization\<newline>'' @
     ''\<newline>'' @
     ''### Low Priority\<newline>'' @
     ''1. Code refactoring\<newline>'' @
     ''2. Documentation updates\<newline>'' @
     ''3. Tool improvements\<newline>'' @
     ''\<newline>'' @
     ''## Action Plan\<newline>'' @
     ''\<newline>'' @
     ''| Priority | Action Item | Timeline | Owner |\<newline>'' @
     ''|----------|-------------|----------|-------|\<newline>'' @
     ''| High | Testing Strategy | 2 weeks | TBD |\<newline>'' @
     ''| High | API Documentation | 1 week | TBD |\<newline>'' @
     ''| Medium | Security Review | 4 weeks | TBD |\<newline>'' @
     ''\<newline>'' @
     generate_footer user_name @ ''\<newline>''"

definition usecases_content :: "string \<Rightarrow> string \<Rightarrow> string \<Rightarrow> string" where
  "usecases_content prompt targets user_name =
     ''# Use Cases for '' @ targets @ ''\<newline>'' @
     ''\<newline>'' @
     ''## Overview\<newline>'' @
     ''Use cases defined for: '' @ prompt @ ''\<newline>'' @
     ''\<newline>'' @
     ''## Actors\<newline>'' @
     ''- Primary User\<newline>'' @
     ''- System Administrator\<newline>'' @
     ''- External System\<newline>'' @
     ''\<newline>'' @
     ''## Use Cases\<newline>'' @
     ''\<newline>'' @
     ''### UC001 - Primary User Interaction\<newline>'' @
     ''**Actor**: Primary User\<newline>'' @
     ''**Goal**: '' @ prompt @ ''\<newline>'' @
     ''**Preconditions**: User is authenticated\<newline>'' @
     ''**Main Flow**:\<newline>'' @
     ''1. User accesses '' @ targets @ ''\<newline>'' @
     ''2. System presents interface\<newline>'' @
     ''3. User provides input\<newline>'' @
     ''4. System processes request\<newline>'' @
     ''5. System returns result\<newline>'' @
     ''\<newline>'' @
     ''**Alternative Flows**:\<newline>'' @
     ''- 4a. Invalid input provided\<newline>'' @
     ''  - 4a1. System displays error message\<newline>'' @
     ''  - 4a2. Return to step 3\<newline>'' @
     ''\<newline>'' @
     ''**Postconditions**: Request is processed successfully\<newline>'' @
     ''\<newline>'' @
     ''### UC002 - System Administration\<newline>'' @
     ''**Actor**: System Administrator\<newline>'' @
     ''**Goal**: Manage '' @ targets @ '' configuration\<newline>'' @
     ''**Preconditions**: Administrator has access\<newline>'' @
     ''**Main Flow**:\<newline>'' @
     ''1. Administrator accesses admin interface\<newline>'' @
     ''2. System displays configuration options\<newline>'' @
     ''3. Administrator modifies settings\<newline>'' @
     ''4. System validates changes\<newline>'' @
     ''5. System applies configuration\<newline>'' @
     ''\<newline>'' @
     ''**Alternative Flows**:\<newline>'' @
     ''- 4a. Invalid configuration\<newline>'' @
     ''  - 4a1. System rejects changes\<newline>'' @
     ''  - 4a2. Return to step 3\<newline>'' @
     ''\<newline>'' @
     ''**Postconditions**: System is configured correctly\<newline>'' @
     ''\<newline>'' @
     ''### UC003 - External System Integration\<newline>'' @
     ''**Actor**: External System\<newline>'' @
     ''**Goal**: Integrate with '' @ targets @ ''\<newline>'' @
     ''**Preconditions**: API credentials configured\<newline>'' @
     ''**Main Flow**:\<newline>'' @
     ''1. External system sends request\<newline>'' @
     ''2. System validates credentials\<newline>'' @
     ''3. System processes request\<newline>'' @
     ''4. System returns response\<newline>'' @
     ''\<newline>'' @
     ''**Alternative Flows**:\<newline>'' @
     ''- 2a. Invalid credentials\<newline>'' @
     ''  - 2a1. System returns authentication error\<newline>'' @
     ''  - 2a2. End use case\<newline>'' @
     ''\<newline>'' @
     ''**Postconditions**: Integration is successful\<newline>'' @
     ''\<newline>'' @
     generate_footer user_name @ ''\<newline>''"

definition create_documentation_content ::
  "string \<Rightarrow> string \<Rightarrow> string \<Rightarrow> pyval \<Rightarrow> string \<Rightarrow> string" where
  "create_documentation_content prompt targets depth scan_result user_name =
     ''# Architecture Documentation for '' @ targets @ ''\<newline>'' @
     ''\<newline>'' @
     ''## Executive Summary\<newline>'' @
     ''This document provides '' @ depth @ '' level documentation for: '' @ prompt @ ''\<newline>'' @
     ''\<newline>'' @
     ''## System Overview\<newline>'' @
     ''\<newline>'' @
     ''### Purpose\<newline>'' @
     ''The '' @ targets @ '' system is designed to handle the following requirements:\<newline>'' @
     ''- '' @ prompt @ ''\<newline>'' @
     ''\<newline>'' @
     ''### Architecture Principles\<newline>'' @
     ''- Modularity and separation of concerns\<newline>'' @
     ''- Scalability and performance\<newline>'' @
     ''- Reliability and error handling\<newline>'' @
     ''- Security and data protection\<newline>'' @
     ''\<newline>'' @
     ''## Components\<newline>'' @
     ''\<newline>'' @
     ''### Core Components\<newline>'' @
     ''- **Main Processing Unit**: Handles primary business logic\<newline>'' @
     ''- **Data Layer**: Manages data persistence and retrieval\<newline>'' @
     ''- **API Layer**: Provides external interfaces\<newline>'' @
     ''- **Configuration Management**: Handles system configuration\<newline>'' @
     ''\<newline>'' @
     ''### Component Interactions\<newline>'' @
     ''Components interact through well-defined interfaces and contracts.\<newline>'' @
     ''\<newline>'' @
     ''## Data Flow\<newline>'' @
     ''\<newline>'' @
     ''### Primary Data Flow\<newline>'' @
     ''1. Input validation and preprocessing\<newline>'' @
     ''2. Business logic processing\<newline>'' @
     ''3. Data persistence\<newline>'' @
     ''4. Response generation\<newline>'' @
     ''\<newline>'' @
     ''### Error Handling\<newline>'' @
     ''- Input validation errors\<newline>'' @
     ''- Processing exceptions\<newline>'' @
     ''- Data consistency checks\<newline>'' @
     ''- System recovery procedures\<newline>'' @
     ''\<newline>'' @
     ''## Integration Points\<newline>'' @
     ''\<newline>'' @
     ''### External Dependencies\<newline>'' @
     ''- External APIs and services\<newline>'' @
     ''- Database systems\<newline>'' @
     ''- Configuration sources\<newline>'' @
     ''- Monitoring and logging systems\<newline>'' @
     ''\<newline>'' @
     ''### Internal Interfaces\<newline>'' @
     ''- Component-to-component communication\<newline>'' @
     ''- Event handling mechanisms\<newline>'' @
     ''- Data transformation layers\<newline>'' @
     ''\<newline>'' @
     ''## Reliability Behaviors\<newline>'' @
     ''\<newline>'' @
     ''### Error Surfaces\<newline>'' @
     ''- Input validation failures\<newline>'' @
     ''- External service timeouts\<newline>'' @
     ''- Resource exhaustion\<newline>'' @
     ''- Configuration errors\<newline>'' @
     ''\<newline>'' @
     ''### Recovery Mechanisms\<newline>'' @
     ''- Graceful degradation\<newline>'' @
     ''- Retry policies\<newline>'' @
     ''- Circuit breaker patterns\<newline>'' @
     ''- Fallback procedures\<newline>'' @
     ''\<newline>'' @
     ''## Security Considerations\<newline>'' @
     ''\<newline>'' @
     ''### Authentication\<newline>'' @
     ''- User authentication mechanisms\<newline>'' @
     ''- Service-to-service authentication\<newline>'' @
     ''- Token management\<newline>'' @
     ''\<newline>'' @
     ''### Authorization\<newline>'' @
     ''- Role-based access control\<newline>'' @
     ''- Resource-level permissions\<newline>'' @
     ''- API access controls\<newline>'' @
     ''\<newline>'' @
     ''### Data Protection\<newline>'' @
     ''- Data encryption at rest\<newline>'' @
     ''- Data encryption in transit\<newline>'' @
     ''- PII handling procedures\<newline>'' @
     ''\<newline>'' @
     ''## Performance Characteristics\<newline>'' @
     ''\<newline>'' @
     ''### Scalability\<newline>'' @
     ''- Horizontal scaling capabilities\<newline>'' @
     ''- Vertical scaling considerations\<newline>'' @
     ''- Resource utilization patterns\<newline>'' @
     ''\<newline>'' @
     ''### Monitoring\<newline>'' @
     ''- Key performance indicators\<newline>'' @
     ''- Alerting mechanisms\<newline>'' @
     ''- Logging strategies\<newline>'' @
     ''\<newline>'' @
     ''## Future Considerations\<newline>'' @
     ''\<newline>'' @
     ''### Planned Enhancements\<newline>'' @
     ''- Feature roadmap items\<newline>'' @
     ''- Technical debt reduction\<newline>'' @
     ''- Performance optimizations\<newline>'' @
     ''\<newline>'' @
     ''### Migration Strategies\<newline>'' @
     ''- Version upgrade procedures\<newline>'' @
     ''- Data migration approaches\<newline>'' @
     ''- Backward compatibility\<newline>'' @
     ''\<newline>'' @
     generate_footer user_name @ ''\<newline>''"

subsection \<open>The generators\<close>

text \<open>
  What a generator returns: the dictionary of a document (\<^verbatim>\<open>document\<close>,
  \<^verbatim>\<open>diagramFiles\<close>, \<^verbatim>\<open>content\<close>) or of a diagram (\<^verbatim>\<open>diagram_file\<close>, \<^verbatim>\<open>diagram_type\<close>,
  \<^verbatim>\<open>content\<close>). Both have three keys, so both are true when tested with \<^verbatim>\<open>if\<close>.
\<close>

datatype artifact =
    Document (document: string) (diagramFiles: "string list") (content: string)
  | Diagram (diagram_file: string) (diagram_type: string) (content: string)

fun artifact_truthy :: "artifact \<Rightarrow> bool" where
  "artifact_truthy (Document f ds c) = True"
| "artifact_truthy (Diagram f k c) = True"

type_synonym constraints = "(string \<times> pyval) list option"

type_synonym generator =
  "chatmode \<Rightarrow> string \<Rightarrow> string \<Rightarrow> string \<Rightarrow> constraints \<Rightarrow> string \<Rightarrow> world \<Rightarrow> (exn + artifact) \<times> world"

definition generate_flowchart_diagram :: generator where
  "generate_flowchart_diagram self prompt targets depth constraints user_name w =
     (let (timestamp, w1) = now_stamp w;
          filename = ''flowchart_'' @ timestamp @ ''.mmd'';
          filepath = path_child (diagrams_folder self) filename;
          mermaid_content = create_flowchart_content prompt targets depth
      in case write_text filepath mermaid_content w1 of
           (Inl e, w2) \<Rightarrow> (Inl e, w2)
         | (Inr _, w2) \<Rightarrow> (Inr (Diagram (path_str filepath) ''flowchart'' mermaid_content), w2))"

definition generate_sequence_diagram :: generator where
  "generate_sequence_diagram self prompt targets depth constraints user_name w =
     (let (timestamp, w1) = now_stamp w;
          filename = ''sequence_'' @ timestamp @ ''.mmd'';
          filepath = path_child (diagrams_folder self) filename;
          mermaid_content = sequence_content prompt targets user_name
      in case write_text filepath mermaid_content w1 of
           (Inl e, w2) \<Rightarrow> (Inl e, w2)
         | (Inr _, w2) \<Rightarrow> (Inr (Diagram (path_str filepath) ''sequence'' mermaid_content), w2))"

definition generate_class_diagram :: generator where
  "generate_class_diagram self prompt targets depth constraints user_name w =
     (let (timestamp, w1) = now_stamp w;
          filename = ''class_'' @ timestamp @ ''.mmd'';
          filepath = path_child (diagrams_folder self) filename;
          mermaid_content = class_content targets user_name
      in case write_text filepath mermaid_content w1 of
           (Inl e, w2) \<Rightarrow> (Inl e, w2)
         | (Inr _, w2) \<Rightarrow> (Inr (Diagram (path_str filepath) ''class'' mermaid_content), w2))"

definition generate_er_diagram :: generator where
  "generate_er_diagram self prompt targets depth constraints user_name w =
     (let (timestamp, w1) = now_stamp w;
          filename = ''er_'' @ timestamp @ ''.mmd'';
          filepath = path_child (diagrams_folder self) filename;
          mermaid_content = er_content user_name
      in case write_text filepath mermaid_content w1 of
           (Inl e, w2) \<Rightarrow> (Inl e, w2)
         | (Inr _, w2) \<Rightarrow> (Inr (Diagram (path_str filepath) ''er'' mermaid_content), w2))"

definition generate_state_diagram :: generator where
  "generate_state_diagram self prompt targets depth constraints user_name w =
     (let (timestamp, w1) = now_stamp w;
          filename = ''state_'' @ timestamp @ ''.mmd'';
          filepath = path_child (diagrams_folder self) filename;
          mermaid_content = state_content prompt user_name
      in case write_text filepath mermaid_content w1 of
           (Inl e, w2) \<Rightarrow> (Inl e, w2)
         | (Inr _, w2) \<Rightarrow> (Inr (Diagram (path_str filepath) ''state'' mermaid_content), w2))"

definition generate_documentation :: generator where
  "generate_documentation self prompt targets depth constraints user_name w =
     (let scan_result = scan_codebase self targets;
          (timestamp, w1) = now_stamp w;
          filename = ''architecture_doc_'' @ timestamp @ ''.md'';
          filepath = path_child (docs_folder self) filename;
          content = create_documentation_content prompt targets depth scan_result user_name
      in case write_text filepath content w1 of
           (Inl e, w2) \<Rightarrow> (Inl e, w2)
         | (Inr _, w2) \<Rightarrow>
             (case generate_flowchart_diagram self prompt targets depth constraints user_name w2 of
                (Inl e, w3) \<Rightarrow> (Inl e, w3)
              | (Inr diagram_result, w3) \<Rightarrow>
                  (Inr (Document (path_str filepath)
                          (if artifact_truthy diagram_result then [diagram_file diagram_result] else [])
                          content), w3)))"

text \<open>
  The sub-kind of a diagram: \<^verbatim>\<open>"flowchart"\<close>, replaced by \<^verbatim>\<open>constraints["diagram"]\<close>
  when \<^verbatim>\<open>constraints\<close> is a non-empty dictionary with that key; then the chain of
  comparisons, whose last branch falls back on the flowchart.
\<close>

definition generate_diagram :: generator where
  "generate_diagram self prompt targets depth constraints user_name w =
     (let diagram_type =
            (case constraints of
               None \<Rightarrow> PStr ''flowchart''
             | Some c \<Rightarrow>
                 (if c \<noteq> [] \<and> map_of c ''diagram'' \<noteq> None then the (map_of c ''diagram'')
                  else PStr ''flowchart''))
      in if diagram_type = PStr ''sequence'' then
           generate_sequence_diagram self prompt targets depth constraints user_name w
         else if diagram_type = PStr ''flowchart'' then
           generate_flowchart_diagram self prompt targets depth constraints user_name w
         else if diagram_type = PStr ''class'' then
           generate_class_diagram self prompt targets depth constraints user_name w
         else if diagram_type = PStr ''er'' then
           generate_er_diagram self prompt targets depth constraints user_name w
         else if diagram_type = PStr ''state'' then
           generate_state_diagram self prompt targets depth constraints user_name w
         else
           generate_flowchart_diagram self prompt targets depth constraints user_name w)"

definition generate_testcases :: generator where
  "generate_testcases self prompt targets depth constraints user_name w =
     (let (timestamp, w1) = now_stamp w;
          filename = ''testcases_'' @ timestamp @ ''.md'';
          filepath = path_child (docs_folder self) filename;
          content = testcases_content prompt targets user_name
      in case write_text filepath content w1 of
           (Inl e, w2) \<Rightarrow> (Inl e, w2)
         | (Inr _, w2) \<Rightarrow> (Inr (Document (path_str filepath) [] content), w2))"

definition generate_gapscan :: generator where
  "generate_gapscan self prompt targets depth constraints user_name w =
     (let (timestamp, w1) = now_stamp w;
          filename = ''gapscan_'' @ timestamp @ ''.md'';
          filepath = path_child (docs_folder self) filename;
          content = gapscan_content prompt targets user_name
      in case write_text filepath content w1 of
           (Inl e, w2) \<Rightarrow> (Inl e, w2)
         | (Inr _, w2) \<Rightarrow> (Inr (Document (path_str filepath) [] content), w2))"

text \<open>The use-case generator writes its sequence diagram before its own file.\<close>

definition generate_usecases :: generator where
  "generate_usecases self prompt targets depth constraints user_name w =
     (let (timestamp, w1) = now_stamp w;
          filename = ''usecases_'' @ timestamp @ ''.md'';
          filepath = path_child (docs_folder self) filename;
          content = usecases_content prompt targets user_name
      in case generate_sequence_diagram self prompt targets depth constraints user_name w1 of
           (Inl e, w2) \<Rightarrow> (Inl e, w2)
         | (Inr diagram_result, w2) \<Rightarrow>
             (case write_text filepath content w2 of
                (Inl e, w3) \<Rightarrow> (Inl e, w3)
              | (Inr _, w3) \<Rightarrow>
                  (Inr (Document (path_str filepath) [diagram_file diagram_result] content), w3)))"

subsection \<open>The dispatcher: \<^verbatim>\<open>process\<close>\<close>

definition artifact_types :: "string list" where
  "artifact_types = [''doc'', ''diagram'', ''testcases'', ''gapscan'', ''usecases'']"

definition depths :: "string list" where
  "depths = [''overview'', ''subsystem'', ''interface-only'']"

text \<open>
  The branches of the final \<^verbatim>\<open>if\<close>/\<^verbatim>\<open>elif\<close>/\<^verbatim>\<open>else\<close> chain of \<^verbatim>\<open>process\<close>, named so
  that the branch taken can be spoken of: \<open>select_branch\<close> is the chain of comparisons,
  \<open>run_branch\<close> the body of each branch.
\<close>

datatype branch =
    DocBranch | DiagramBranch | TestcasesBranch | GapscanBranch | UsecasesBranch
  | UnsupportedBranch

definition select_branch :: "string \<Rightarrow> branch" where
  "select_branch artifact_type =
     (if artifact_type = ''doc'' then DocBranch
      else if artifact_type = ''diagram'' then DiagramBranch
      else if artifact_type = ''testcases'' then TestcasesBranch
      else if artifact_type = ''gapscan'' then GapscanBranch
      else if artifact_type = ''usecases'' then UsecasesBranch
      else UnsupportedBranch)"

fun run_branch :: "branch \<Rightarrow> string \<Rightarrow> generator" where
  "run_branch DocBranch artifact_type self prompt targets depth constraints user_name w =
     generate_documentation self prompt targets depth constraints user_name w"
| "run_branch DiagramBranch artifact_type self prompt targets depth constraints user_name w =
     generate_diagram self prompt targets depth constraints user_name w"
| "run_branch TestcasesBranch artifact_type self prompt targets depth constraints user_name w =
     generate_testcases self prompt targets depth constraints user_name w"
| "run_branch GapscanBranch artifact_type self prompt targets depth constraints user_name w =
     generate_gapscan self prompt targets depth constraints user_name w"
| "run_branch UsecasesBranch artifact_type self prompt targets depth constraints user_name w =
     generate_usecases self prompt targets depth constraints user_name w"
| "run_branch UnsupportedBranch artifact_type self prompt targets depth constraints user_name w =
     (Inl (ValueError (''Unsupported artifact_type: '' @ artifact_type)), w)"

definition process ::
  "chatmode \<Rightarrow> string \<Rightarrow> string \<Rightarrow> string \<Rightarrow> string \<Rightarrow> constraints \<Rightarrow> string \<Rightarrow> world
     \<Rightarrow> (exn + artifact) \<times> world" where
  "process self prompt targets artifact_type depth constraints user_name w =
     (if artifact_type \<notin> set artifact_types then
        (Inl (ValueError (''Invalid artifact_type: '' @ artifact_type)), w)
      else if depth \<notin> set depths then
        (Inl (ValueError (''Invalid depth: '' @ depth)), w)
      else
        (case ensure_directories self w of
           (Inl e, w1) \<Rightarrow> (Inl e, w1)
         | (Inr _, w1) \<Rightarrow>
             run_branch (select_branch artifact_type) artifact_type
               self prompt targets depth constraints user_name w1))"

section \<open>The adapter: \<^verbatim>\<open>ArchitecturalDocumentationAgent\<close>\<close>

record agent =
  agent_id :: string
  chatmode :: "chatmode option"
  agent_workspace_path :: path

definition create_architectural_documentation_agent :: "string \<Rightarrow> path \<Rightarrow> agent" where
  "create_architectural_documentation_agent ident ws =
     \<lparr>agent_id = ident, chatmode = None, agent_workspace_path = ws\<rparr>"

definition initialize :: "agent \<Rightarrow> agent" where
  "initialize self = self\<lparr>chatmode := Some (init_chatmode (agent_workspace_path self))\<rparr>"

subsection \<open>Parsing the input text\<close>

text \<open>
  The characters that \<^verbatim>\<open>str.strip()\<close> removes, among the code points below 256:
  tab to carriage return, the four separators 0x1C to 0x1F, the space, 0x85 and 0xA0.
\<close>

definition is_space :: "char \<Rightarrow> bool" where
  "is_space c \<longleftrightarrow>
     c \<in> set [CHR 0x09, CHR 0x0A, CHR 0x0B, CHR 0x0C, CHR 0x0D, CHR 0x1C, CHR 0x1D, CHR 0x1E,
              CHR 0x1F, CHR 0x20, CHR 0x85, CHR 0xA0]"

definition strip :: "string \<Rightarrow> string" where
  "strip s = rev (dropWhile is_space (rev (dropWhile is_space s)))"

text \<open>\<^verbatim>\<open>s.split(c)\<close> for a separator of one character: never empty, one more piece than separators.\<close>

fun split_on :: "char \<Rightarrow> string \<Rightarrow> string list" where
  "split_on c [] = [[]]"
| "split_on c (x # xs) =
     (if x = c then [] # split_on c xs
      else (let r = split_on c xs in (x # hd r) # tl r))"

text \<open>
  The two pieces of \<^verbatim>\<open>line.split('=', 1)\<close> for a line that holds an equals sign: the text
  before the first one and the text after it.
\<close>

definition split_key :: "string \<Rightarrow> string" where
  "split_key line = takeWhile (\<lambda>c. c \<noteq> CHR ''='') line"

definition split_value :: "string \<Rightarrow> string" where
  "split_value line = tl (dropWhile (\<lambda>c. c \<noteq> CHR ''='') line)"

type_synonym params = "string \<rightharpoonup> pyval"

text \<open>The body of the loop over the lines.\<close>

definition parse_line :: "params \<Rightarrow> string \<Rightarrow> params" where
  "parse_line params line0 =
     (let line = strip line0
      in if CHR ''='' \<in> set line
         then params(strip (split_key line) \<mapsto> PStr (strip (split_value line)))
         else params)"

text \<open>
  \<^verbatim>\<open>_parse_input\<close>. The update with the context is skipped for an empty context, where
  it would change nothing, so \<^verbatim>\<open>if context: params.update(context)\<close> is the override
  of the empty mapping by the context whenever there is one.
\<close>

definition parse_input :: "string \<Rightarrow> params option \<Rightarrow> params" where
  "parse_input input_data context =
     (let params = (case context of None \<Rightarrow> Map.empty | Some c \<Rightarrow> Map.empty ++ c)
      in if CHR ''='' \<in> set input_data
         then foldl parse_line params (split_on (CHR 0x0A) input_data)
         else if params ''prompt'' = None then params(''prompt'' \<mapsto> PStr input_data)
         else params)"

subsection \<open>The adapter's \<^verbatim>\<open>process\<close>\<close>

text \<open>
  The mapping the adapter returns: \<^verbatim>\<open>success\<close> and \<^verbatim>\<open>metadata\<close> always, \<^verbatim>\<open>result\<close> on
  success and \<^verbatim>\<open>error\<close> on failure.
\<close>

record envelope =
  success :: bool
  result :: "artifact option"
  error :: "string option"
  metadata :: "(string \<times> string) list"

definition failure_envelope :: "agent \<Rightarrow> exn \<Rightarrow> envelope" where
  "failure_envelope self e =
     \<lparr>success = False, result = None, error = Some (str_exn e),
      metadata = [(''agent_id'', agent_id self)]\<rparr>"

definition success_envelope :: "agent \<Rightarrow> artifact \<Rightarrow> string \<Rightarrow> string \<Rightarrow> string \<Rightarrow> envelope" where
  "success_envelope self r artifact_type targets depth =
     \<lparr>success = True, result = Some r, error = None,
      metadata = [(''agent_id'', agent_id self), (''artifact_type'', artifact_type),
                  (''targets'', targets), (''depth'', depth)]\<rparr>"

text \<open>\<^verbatim>\<open>bool(params.get(k))\<close> and \<^verbatim>\<open>params.get(k, default)\<close>.\<close>

definition get_truthy :: "params \<Rightarrow> string \<Rightarrow> bool" where
  "get_truthy params k = (case params k of None \<Rightarrow> False | Some v \<Rightarrow> truthy v)"

definition get_default :: "params \<Rightarrow> string \<Rightarrow> pyval \<Rightarrow> pyval" where
  "get_default params k d = (case params k of None \<Rightarrow> d | Some v \<Rightarrow> v)"

definition required_message :: "string \<Rightarrow> string" where
  "required_message field = quoted field @ '' parameter is required''"

text \<open>
  The dispatcher declares \<^verbatim>\<open>prompt\<close>, \<^verbatim>\<open>targets\<close>, \<^verbatim>\<open>artifact_type\<close>, \<^verbatim>\<open>depth\<close> and
  \<^verbatim>\<open>user_name\<close> as strings and \<^verbatim>\<open>constraints\<close> as an optional dictionary, and is
  modelled at these types. \<open>str_arg\<close> and \<open>constraints_arg\<close> read an argument at its
  declared type; a value of another type has no reading.
\<close>

fun str_arg :: "pyval \<Rightarrow> string option" where
  "str_arg (PStr s) = Some s"
| "str_arg v = None"

fun constraints_arg :: "pyval \<Rightarrow> constraints option" where
  "constraints_arg PNone = Some None"
| "constraints_arg (PDict d) = Some (Some d)"
| "constraints_arg v = None"

text \<open>
  The body of the \<^verbatim>\<open>try\<close> block: \<open>Inl e\<close> when it raises \<open>e\<close>. The three checks come
  first and are modelled for every value. The result is \<open>None\<close> only where all three
  checks pass and the dispatcher would then receive an argument that is not of its
  declared type, as it does when the context binds a string parameter to a value that is
  not a string, or when a line \<^verbatim>\<open>constraints=...\<close> of the text makes the constraints a
  string. The code runs on in these cases, with an ill-typed argument; the model does
  not follow it there, and no statement below is about them.
\<close>

definition process_try ::
  "agent \<Rightarrow> string \<Rightarrow> params option \<Rightarrow> world \<Rightarrow> ((exn + envelope) \<times> world) option" where
  "process_try self input_data context w =
     (let params = parse_input input_data context
      in if \<not> get_truthy params ''prompt'' then
           Some (Inl (ValueError (required_message ''prompt'')), w)
         else if \<not> get_truthy params ''targets'' then
           Some (Inl (ValueError (required_message ''targets'')), w)
         else if \<not> get_truthy params ''artifactType'' then
           Some (Inl (ValueError (required_message ''artifactType'')), w)
         else
           (case chatmode self of
              None \<Rightarrow>
                Some (Inl (AttributeError
                  (quoted ''NoneType'' @ '' object has no attribute '' @ quoted ''process'')), w)
            | Some cm \<Rightarrow>
                Option.bind (str_arg (the (params ''prompt''))) (\<lambda>prompt.
                Option.bind (str_arg (the (params ''targets''))) (\<lambda>targets.
                Option.bind (str_arg (the (params ''artifactType''))) (\<lambda>artifact_type.
                Option.bind (str_arg (get_default params ''depth'' (PStr ''overview''))) (\<lambda>depth.
                Option.bind (constraints_arg (get_default params ''constraints'' PNone)) (\<lambda>constraints.
                Option.bind (str_arg (get_default params ''user_name'' (PStr ''User''))) (\<lambda>user_name.
                  (case process cm prompt targets artifact_type depth constraints user_name w of
                     (Inl e, w1) \<Rightarrow> Some (Inl e, w1)
                   | (Inr r, w1) \<Rightarrow>
                       Some (Inr (success_envelope self r artifact_type targets depth), w1))))))))))"

text \<open>
  The adapter's \<^verbatim>\<open>process\<close>: the \<^verbatim>\<open>try\<close> block, and \<^verbatim>\<open>except Exception\<close> turning whatever
  was raised into the failure mapping.
\<close>

definition agent_process ::
  "agent \<Rightarrow> string \<Rightarrow> params option \<Rightarrow> world \<Rightarrow> (envelope \<times> world) option" where
  "agent_process self input_data context w =
     (case process_try self input_data context w of
        None \<Rightarrow> None
      | Some (Inl e, w1) \<Rightarrow> Some (failure_envelope self e, w1)
      | Some (Inr env, w1) \<Rightarrow> Some (env, w1))"

definition get_supported_artifact_types :: "string list" where
  "get_supported_artifact_types = [''doc'', ''diagram'', ''testcases'', ''gapscan'', ''usecases'']"

definition get_supported_depths :: "string list" where
  "get_supported_depths = [''overview'', ''subsystem'', ''interface-only'']"

definition get_supported_diagram_types :: "string list" where
  "get_supported_diagram_types = [''sequence'', ''flowchart'', ''class'', ''er'', ''state'']"

subsection \<open>The pairs a text yields\<close>

text \<open>
  What the adapter's merge is compared with: \<open>line_pair\<close> is the key and the value that
  one line contributes (none for a line without an equals sign), and \<open>text_pairs\<close> lists
  them in the order of the lines. The merge "context first, then the pairs of the text
  over it" is the override \<open>c ++ map_of (rev (text_pairs s))\<close>, in which a later line
  wins over an earlier one and every line wins over the context.
\<close>

definition line_pair :: "string \<Rightarrow> (string \<times> pyval) option" where
  "line_pair line0 =
     (let line = strip line0
      in if CHR ''='' \<in> set line
         then Some (strip (split_key line), PStr (strip (split_value line)))
         else None)"

definition text_pairs :: "string \<Rightarrow> (string \<times> pyval) list" where
  "text_pairs input_data = List.map_filter line_pair (split_on (CHR 0x0A) input_data)"

subsection \<open>A workspace that can take the output\<close>

text \<open>
  The condition on the file system under which a request cannot fail for a reason of the
  file system: the workspace \<open>ws\<close> is a directory, no regular file sits at \<^verbatim>\<open>docs\<close> or at
  \<^verbatim>\<open>docs/diagrams\<close>, and no directory sits where a generated file goes (below \<^verbatim>\<open>docs\<close>
  the only directory allowed is \<^verbatim>\<open>diagrams\<close>, below \<^verbatim>\<open>docs/diagrams\<close> none). A fresh
  temporary directory, as the tests of the repository use, is such a workspace, and so
  is a workspace that earlier requests have written to. \<open>folders_ready\<close> is the same
  condition once \<^verbatim>\<open>_ensure_directories\<close> has made the two directories.
\<close>

definition workspace_ready :: "path \<Rightarrow> world \<Rightarrow> bool" where
  "workspace_ready ws w \<longleftrightarrow>
     ws \<in> dirs w \<and>
     ws @ [''docs''] \<notin> dom (files w) \<and>
     ws @ [''docs'', ''diagrams''] \<notin> dom (files w) \<and>
     (\<forall>n. n \<noteq> ''diagrams'' \<longrightarrow> ws @ [''docs'', n] \<notin> dirs w) \<and>
     (\<forall>n. ws @ [''docs'', ''diagrams'', n] \<notin> dirs w)"

definition folders_ready :: "path \<Rightarrow> world \<Rightarrow> bool" where
  "folders_ready ws w \<longleftrightarrow>
     ws @ [''docs''] \<in> dirs w \<and>
     ws @ [''docs'', ''diagrams''] \<in> dirs w \<and>
     (\<forall>n. n \<noteq> ''diagrams'' \<longrightarrow> ws @ [''docs'', n] \<notin> dirs w) \<and>
     (\<forall>n. ws @ [''docs'', ''diagrams'', n] \<notin> dirs w)"

section \<open>A concrete workspace\<close>

text \<open>
  A workspace directory \<^verbatim>\<open>ws\<close> that exists and is empty, a clock that stands still, the
  chat mode and the initialised adapter on that workspace. The closed examples below are
  evaluated on them.
\<close>

definition example_world :: world where
  "example_world =
     \<lparr>dirs = {[''ws'']}, files = Map.empty, clock = (\<lambda>n. ''20250101_120000''), ticks = 0\<rparr>"

definition example_chatmode :: chatmode where
  "example_chatmode = init_chatmode [''ws'']"

definition example_agent :: agent where
  "example_agent = initialize (create_architectural_documentation_agent ''architect-agent'' [''ws''])"

text \<open>The same workspace once both output directories exist, and at a later time.\<close>

definition example_prepared_world :: world where
  "example_prepared_world =
     \<lparr>dirs = {[''ws'', ''docs'', ''diagrams''], [''ws'', ''docs''], [''ws'']}, files = Map.empty,
      clock = (\<lambda>n. ''20250101_120000''), ticks = 0\<rparr>"

definition example_later_world :: world where
  "example_later_world =
     \<lparr>dirs = {[''ws'', ''docs'', ''diagrams''], [''ws'', ''docs''], [''ws'']}, files = Map.empty,
      clock = (\<lambda>n. ''20260704_093015''), ticks = 7\<rparr>"

text \<open>Two contexts: one with an empty prompt and no targets, one with a prompt only.\<close>

definition example_context :: params where
  "example_context = [''prompt'' \<mapsto> PStr [], ''artifactType'' \<mapsto> PStr ''doc'']"

definition example_prompt_context :: params where
  "example_prompt_context = [''prompt'' \<mapsto> PStr ''Test prompt'']"

text \<open>A context that names the targets and the artifact type, and gives no prompt.\<close>

definition example_targets_context :: params where
  "example_targets_context = [''targets'' \<mapsto> PStr ''T'', ''artifactType'' \<mapsto> PStr ''testcases'']"

lemmas eval_defs =
  process_def artifact_types_def depths_def ensure_directories_def mkdir_exist_ok_def
  example_world_def example_chatmode_def init_chatmode_def path_child_def parent_def
  select_branch_def generate_diagram_def now_stamp_def write_text_def Let_def

lemmas parse_defs =
  text_pairs_def line_pair_def strip_def is_space_def split_key_def split_value_def Let_def

section \<open>The footer in the generated text\<close>

lemma sublist_append_left_intro: "sublist xs ys \<Longrightarrow> sublist xs (zs @ ys)"
  by (simp add: sublist_append)

lemma sublist_append_right_intro: "sublist xs ys \<Longrightarrow> sublist xs (ys @ zs)"
  by (simp add: sublist_append)

lemma footer_names_user: "sublist (''as directed by '' @ u) (generate_footer u @ zs)"
proof -
  have "generate_footer u @ zs =
          ''_Generated with GitHub Copilot '' @ (''as directed by '' @ u) @ (''_'' @ zs)"
    by (simp add: generate_footer_def)
  then show ?thesis
    by (simp only: sublist_appendI)
qed

text \<open>
  Every template but the flowchart's ends in the footer: the proof walks down the rows
  of the template to the footer.
\<close>

lemma footer_in_sequence: "sublist (''as directed by '' @ u) (sequence_content p t u)"
  unfolding sequence_content_def
  by (rule footer_names_user | rule sublist_append_left_intro)+

lemma footer_in_class: "sublist (''as directed by '' @ u) (class_content t u)"
  unfolding class_content_def
  by (rule footer_names_user | rule sublist_append_left_intro)+

lemma footer_in_er: "sublist (''as directed by '' @ u) (er_content u)"
  unfolding er_content_def
  by (rule footer_names_user | rule sublist_append_left_intro)+

lemma footer_in_state: "sublist (''as directed by '' @ u) (state_content p u)"
  unfolding state_content_def
  by (rule footer_names_user | rule sublist_append_left_intro)+

lemma footer_in_testcases: "sublist (''as directed by '' @ u) (testcases_content p t u)"
  unfolding testcases_content_def
  by (rule footer_names_user | rule sublist_append_left_intro)+

lemma footer_in_gapscan: "sublist (''as directed by '' @ u) (gapscan_content p t u)"
  unfolding gapscan_content_def
  by (rule footer_names_user | rule sublist_append_left_intro)+

lemma footer_in_usecases: "sublist (''as directed by '' @ u) (usecases_content p t u)"
  unfolding usecases_content_def
  by (rule footer_names_user | rule sublist_append_left_intro)+

lemma footer_in_documentation:
  "sublist (''as directed by '' @ u) (create_documentation_content p t d sr u)"
  unfolding create_documentation_content_def
  by (rule footer_names_user | rule sublist_append_left_intro)+

section \<open>What the generators return\<close>

lemma artifact_truthy_always [simp]: "artifact_truthy a"
  by (cases a) simp_all

lemma flowchart_result:
  "fst (generate_flowchart_diagram self p t d c u w) = Inr r \<Longrightarrow>
   diagram_type r = ''flowchart'' \<and> content r = create_flowchart_content p t d"
  by (auto simp: generate_flowchart_diagram_def Let_def case_prod_beta split: sum.splits)

lemma sequence_result:
  "fst (generate_sequence_diagram self p t d c u w) = Inr r \<Longrightarrow>
   diagram_type r = ''sequence'' \<and> content r = sequence_content p t u"
  by (auto simp: generate_sequence_diagram_def Let_def case_prod_beta split: sum.splits)

lemma class_result:
  "fst (generate_class_diagram self p t d c u w) = Inr r \<Longrightarrow>
   diagram_type r = ''class'' \<and> content r = class_content t u"
  by (auto simp: generate_class_diagram_def Let_def case_prod_beta split: sum.splits)

lemma er_result:
  "fst (generate_er_diagram self p t d c u w) = Inr r \<Longrightarrow>
   diagram_type r = ''er'' \<and> content r = er_content u"
  by (auto simp: generate_er_diagram_def Let_def case_prod_beta split: sum.splits)

lemma state_result:
  "fst (generate_state_diagram self p t d c u w) = Inr r \<Longrightarrow>
   diagram_type r = ''state'' \<and> content r = state_content p u"
  by (auto simp: generate_state_diagram_def Let_def case_prod_beta split: sum.splits)

lemma testcases_result:
  "fst (generate_testcases self p t d c u w) = Inr r \<Longrightarrow>
   diagramFiles r = [] \<and> content r = testcases_content p t u"
  by (auto simp: generate_testcases_def Let_def case_prod_beta split: sum.splits)

lemma gapscan_result:
  "fst (generate_gapscan self p t d c u w) = Inr r \<Longrightarrow>
   diagramFiles r = [] \<and> content r = gapscan_content p t u"
  by (auto simp: generate_gapscan_def Let_def case_prod_beta split: sum.splits)

lemma documentation_result:
  assumes "fst (generate_documentation self p t d c u w) = Inr r"
  shows "\<exists>w1 dr. fst (generate_flowchart_diagram self p t d c u w1) = Inr dr \<and>
           diagramFiles r = [diagram_file dr] \<and>
           content r = create_documentation_content p t d (scan_codebase self t) u"
proof -
  let ?W = "snd (write_text
                  (path_child (docs_folder self) (''architecture_doc_'' @ fst (now_stamp w) @ ''.md''))
                  (create_documentation_content p t d (scan_codebase self t) u)
                  (snd (now_stamp w)))"
  from assms obtain dr where
    "fst (generate_flowchart_diagram self p t d c u ?W) = Inr dr \<and>
     diagramFiles r = [diagram_file dr] \<and>
     content r = create_documentation_content p t d (scan_codebase self t) u"
    by (auto simp: generate_documentation_def Let_def case_prod_beta split: sum.splits)
  then show ?thesis by (intro exI)
qed

lemma usecases_result:
  assumes "fst (generate_usecases self p t d c u w) = Inr r"
  shows "\<exists>w1 dr. fst (generate_sequence_diagram self p t d c u w1) = Inr dr \<and>
           diagramFiles r = [diagram_file dr] \<and>
           content r = usecases_content p t u"
proof -
  from assms obtain dr where
    "fst (generate_sequence_diagram self p t d c u (snd (now_stamp w))) = Inr dr \<and>
     diagramFiles r = [diagram_file dr] \<and>
     content r = usecases_content p t u"
    by (auto simp: generate_usecases_def Let_def case_prod_beta split: sum.splits)
  then show ?thesis by (intro exI)
qed

text \<open>The sub-kind chosen depends on the constraints alone.\<close>

lemma diagram_cases:
  "(\<forall>self w. generate_diagram self p t d c u w = generate_sequence_diagram self p t d c u w) \<or>
   (\<forall>self w. generate_diagram self p t d c u w = generate_flowchart_diagram self p t d c u w) \<or>
   (\<forall>self w. generate_diagram self p t d c u w = generate_class_diagram self p t d c u w) \<or>
   (\<forall>self w. generate_diagram self p t d c u w = generate_er_diagram self p t d c u w) \<or>
   (\<forall>self w. generate_diagram self p t d c u w = generate_state_diagram self p t d c u w)"
  by (simp add: generate_diagram_def Let_def)

lemma generate_diagram_requested:
  assumes "map_of c ''diagram'' = Some v"
  shows "generate_diagram self p t d (Some c) u w =
           (if v = PStr ''sequence'' then generate_sequence_diagram self p t d (Some c) u w
            else if v = PStr ''flowchart'' then generate_flowchart_diagram self p t d (Some c) u w
            else if v = PStr ''class'' then generate_class_diagram self p t d (Some c) u w
            else if v = PStr ''er'' then generate_er_diagram self p t d (Some c) u w
            else if v = PStr ''state'' then generate_state_diagram self p t d (Some c) u w
            else generate_flowchart_diagram self p t d (Some c) u w)"
proof -
  have ne: "c \<noteq> []" using assms by auto
  show ?thesis
    unfolding generate_diagram_def Let_def
    by (simp add: ne assms)
qed

text \<open>A call that returns has passed both checks and run the branch of its artifact type.\<close>

lemma process_runs_branch:
  assumes "fst (process self p t at d c u w) = Inr r"
  shows "at \<in> set artifact_types \<and> d \<in> set depths \<and>
         fst (run_branch (select_branch at) at self p t d c u (snd (ensure_directories self w))) = Inr r"
  using assms
  by (auto simp: process_def case_prod_beta split: if_splits sum.splits)

lemma process_diagram:
  assumes "depth \<in> set depths" and "ensure_directories self w = (Inr (), w1)"
  shows "process self p t ''diagram'' depth constraints u w =
           generate_diagram self p t depth constraints u w1"
  using assms by (simp add: process_def artifact_types_def select_branch_def)

lemma ensure_directories_example:
  "ensure_directories example_chatmode example_world = (Inr (), example_prepared_world)"
  by (simp add: eval_defs example_prepared_world_def)

section \<open>A request in a workspace that can take the output returns\<close>

text \<open>
  In a workspace that can take the output, both directories get made, every generator
  writes its file, and so every request with a valid artifact type and a valid depth
  returns a result. The statements below about a call that returns are therefore about
  every such call.
\<close>

lemma write_text_ok:
  "p \<notin> dirs w \<Longrightarrow> parent p \<in> dirs w \<Longrightarrow>
   write_text p t w = (Inr (), w\<lparr>files := (files w)(p \<mapsto> t)\<rparr>)"
  by (simp add: write_text_def)

lemma write_text_returned:
  "fst (write_text p t w) = Inr x \<Longrightarrow>
   write_text p t w = (Inr (), w\<lparr>files := (files w)(p \<mapsto> t)\<rparr>)"
  by (simp add: write_text_def split: if_splits)

lemma ensure_directories_ready:
  assumes "workspace_ready ws w"
  shows "fst (ensure_directories (init_chatmode ws) w) = Inr () \<and>
         folders_ready ws (snd (ensure_directories (init_chatmode ws) w))"
  using assms
  by (auto simp: workspace_ready_def folders_ready_def ensure_directories_def mkdir_exist_ok_def
        init_chatmode_def path_child_def parent_def butlast_append)

lemma docs_file_ok:
  assumes "folders_ready ws w" and "n \<noteq> ''diagrams''"
  shows "path_child (docs_folder (init_chatmode ws)) n \<notin> dirs w \<and>
         parent (path_child (docs_folder (init_chatmode ws)) n) \<in> dirs w"
  using assms
  by (simp add: folders_ready_def init_chatmode_def path_child_def parent_def butlast_append)

lemma diagrams_file_ok:
  assumes "folders_ready ws w"
  shows "path_child (diagrams_folder (init_chatmode ws)) n \<notin> dirs w \<and>
         parent (path_child (diagrams_folder (init_chatmode ws)) n) \<in> dirs w"
  using assms
  by (simp add: folders_ready_def init_chatmode_def path_child_def parent_def butlast_append)

lemma folders_ready_now [simp]: "folders_ready ws (snd (now_stamp w)) = folders_ready ws w"
  by (simp add: folders_ready_def now_stamp_def)

lemma folders_ready_files [simp]: "folders_ready ws (w\<lparr>files := f\<rparr>) = folders_ready ws w"
  by (simp add: folders_ready_def)

lemma flowchart_returns:
  assumes "folders_ready ws w"
  shows "\<exists>r. fst (generate_flowchart_diagram (init_chatmode ws) p t d c u w) = Inr r"
proof -
  have "folders_ready ws (snd (now_stamp w))" using assms by simp
  from diagrams_file_ok [OF this] show ?thesis
    by (simp add: generate_flowchart_diagram_def Let_def case_prod_beta write_text_ok)
qed

lemma sequence_returns:
  assumes "folders_ready ws w"
  shows "\<exists>r. fst (generate_sequence_diagram (init_chatmode ws) p t d c u w) = Inr r"
proof -
  have "folders_ready ws (snd (now_stamp w))" using assms by simp
  from diagrams_file_ok [OF this] show ?thesis
    by (simp add: generate_sequence_diagram_def Let_def case_prod_beta write_text_ok)
qed

lemma class_returns:
  assumes "folders_ready ws w"
  shows "\<exists>r. fst (generate_class_diagram (init_chatmode ws) p t d c u w) = Inr r"
proof -
  have "folders_ready ws (snd (now_stamp w))" using assms by simp
  from diagrams_file_ok [OF this] show ?thesis
    by (simp add: generate_class_diagram_def Let_def case_prod_beta write_text_ok)
qed

lemma er_returns:
  assumes "folders_ready ws w"
  shows "\<exists>r. fst (generate_er_diagram (init_chatmode ws) p t d c u w) = Inr r"
proof -
  have "folders_ready ws (snd (now_stamp w))" using assms by simp
  from diagrams_file_ok [OF this] show ?thesis
    by (simp add: generate_er_diagram_def Let_def case_prod_beta write_text_ok)
qed

lemma state_returns:
  assumes "folders_ready ws w"
  shows "\<exists>r. fst (generate_state_diagram (init_chatmode ws) p t d c u w) = Inr r"
proof -
  have "folders_ready ws (snd (now_stamp w))" using assms by simp
  from diagrams_file_ok [OF this] show ?thesis
    by (simp add: generate_state_diagram_def Let_def case_prod_beta write_text_ok)
qed

lemma testcases_returns:
  assumes "folders_ready ws w"
  shows "\<exists>r. fst (generate_testcases (init_chatmode ws) p t d c u w) = Inr r"
proof -
  have f: "folders_ready ws (snd (now_stamp w))" using assms by simp
  have n: "''testcases_'' @ fst (now_stamp w) @ ''.md'' \<noteq> ''diagrams''" by simp
  from docs_file_ok [OF f n] show ?thesis
    by (simp add: generate_testcases_def Let_def case_prod_beta write_text_ok)
qed

lemma gapscan_returns:
  assumes "folders_ready ws w"
  shows "\<exists>r. fst (generate_gapscan (init_chatmode ws) p t d c u w) = Inr r"
proof -
  have f: "folders_ready ws (snd (now_stamp w))" using assms by simp
  have n: "''gapscan_'' @ fst (now_stamp w) @ ''.md'' \<noteq> ''diagrams''" by simp
  from docs_file_ok [OF f n] show ?thesis
    by (simp add: generate_gapscan_def Let_def case_prod_beta write_text_ok)
qed

lemma documentation_returns:
  assumes "folders_ready ws w"
  shows "\<exists>r. fst (generate_documentation (init_chatmode ws) p t d c u w) = Inr r"
proof -
  let ?doc = "path_child (docs_folder (init_chatmode ws)) (''architecture_doc_'' @ fst (now_stamp w) @ ''.md'')"
  let ?ct = "create_documentation_content p t d (scan_codebase (init_chatmode ws) t) u"
  let ?w2 = "(snd (now_stamp w))\<lparr>files := (files (snd (now_stamp w)))(?doc \<mapsto> ?ct)\<rparr>"
  have f: "folders_ready ws (snd (now_stamp w))" using assms by simp
  have n: "''architecture_doc_'' @ fst (now_stamp w) @ ''.md'' \<noteq> ''diagrams''" by simp
  from docs_file_ok [OF f n]
  have wr: "write_text ?doc ?ct (snd (now_stamp w)) = (Inr (), ?w2)"
    by (simp add: write_text_ok)
  have "folders_ready ws ?w2" using f by simp
  from flowchart_returns [OF this, of p t d c u] obtain dr where
    "fst (generate_flowchart_diagram (init_chatmode ws) p t d c u ?w2) = Inr dr" ..
  then show ?thesis
    unfolding generate_documentation_def Let_def case_prod_beta wr by simp
qed

lemma usecases_returns:
  assumes "folders_ready ws w"
  shows "\<exists>r. fst (generate_usecases (init_chatmode ws) p t d c u w) = Inr r"
proof -
  let ?w1 = "snd (now_stamp w)"
  let ?doc = "path_child (docs_folder (init_chatmode ws)) (''usecases_'' @ fst (now_stamp w) @ ''.md'')"
  let ?dia = "path_child (diagrams_folder (init_chatmode ws)) (''sequence_'' @ fst (now_stamp ?w1) @ ''.mmd'')"
  let ?w2 = "(snd (now_stamp ?w1))\<lparr>files := (files (snd (now_stamp ?w1)))(?dia \<mapsto> sequence_content p t u)\<rparr>"
  have f1: "folders_ready ws (snd (now_stamp ?w1))" using assms by simp
  from diagrams_file_ok [OF f1]
  have sq: "generate_sequence_diagram (init_chatmode ws) p t d c u ?w1 =
              (Inr (Diagram (path_str ?dia) ''sequence'' (sequence_content p t u)), ?w2)"
    by (simp add: generate_sequence_diagram_def Let_def case_prod_beta write_text_ok)
  have f2: "folders_ready ws ?w2" using f1 by simp
  have n: "''usecases_'' @ fst (now_stamp w) @ ''.md'' \<noteq> ''diagrams''" by simp
  from docs_file_ok [OF f2 n]
  have wr: "write_text ?doc (usecases_content p t u) ?w2 =
              (Inr (), ?w2\<lparr>files := (files ?w2)(?doc \<mapsto> usecases_content p t u)\<rparr>)"
    by (simp add: write_text_ok)
  show ?thesis
    unfolding generate_usecases_def Let_def case_prod_beta sq prod.sel sum.case wr by simp
qed

lemma diagram_returns:
  assumes "folders_ready ws w"
  shows "\<exists>r. fst (generate_diagram (init_chatmode ws) p t d c u w) = Inr r"
  using diagram_cases [of p t d c u] flowchart_returns [OF assms] sequence_returns [OF assms]
    class_returns [OF assms] er_returns [OF assms] state_returns [OF assms]
  by (elim disjE) simp_all

lemma artifact_type_cases:
  "at \<in> set artifact_types \<Longrightarrow>
   at = ''doc'' \<or> at = ''diagram'' \<or> at = ''testcases'' \<or> at = ''gapscan'' \<or> at = ''usecases''"
  by (simp add: artifact_types_def)

lemma process_returned:
  assumes "fst (process self p t at d c u w) = Inr r"
  shows "process self p t at d c u w =
           run_branch (select_branch at) at self p t d c u (snd (ensure_directories self w))"
  using assms
  by (auto simp: process_def case_prod_beta split: if_splits sum.splits)

lemma process_returns_in_ready_workspace:
  assumes "at \<in> set artifact_types" and "d \<in> set depths" and "workspace_ready ws w"
  shows "\<exists>r. fst (process (init_chatmode ws) p t at d c u w) = Inr r"
proof -
  let ?W = "snd (ensure_directories (init_chatmode ws) w)"
  from ensure_directories_ready [OF assms(3)]
  have e: "fst (ensure_directories (init_chatmode ws) w) = Inr ()" and r: "folders_ready ws ?W"
    by simp_all
  have q: "process (init_chatmode ws) p t at d c u w =
           run_branch (select_branch at) at (init_chatmode ws) p t d c u ?W"
    using assms(1,2) e by (simp add: process_def case_prod_beta)
  from artifact_type_cases [OF assms(1)] show ?thesis
  proof (elim disjE)
    assume "at = ''doc''"
    then show ?thesis
      unfolding q using documentation_returns [OF r, of p t d c u] by (simp add: select_branch_def)
  next
    assume "at = ''diagram''"
    then show ?thesis
      unfolding q using diagram_returns [OF r, of p t d c u] by (simp add: select_branch_def)
  next
    assume "at = ''testcases''"
    then show ?thesis
      unfolding q using testcases_returns [OF r, of p t d c u] by (simp add: select_branch_def)
  next
    assume "at = ''gapscan''"
    then show ?thesis
      unfolding q using gapscan_returns [OF r, of p t d c u] by (simp add: select_branch_def)
  next
    assume "at = ''usecases''"
    then show ?thesis
      unfolding q using usecases_returns [OF r, of p t d c u] by (simp add: select_branch_def)
  qed
qed

lemma example_world_ready: "workspace_ready [''ws''] example_world"
  by (simp add: workspace_ready_def example_world_def)

lemma example_prepared_world_ready: "workspace_ready [''ws''] example_prepared_world"
  by (simp add: workspace_ready_def example_prepared_world_def)

section \<open>What a returning generator has done\<close>

text \<open>
  The exact result and final world of the two diagram generators that accompany a
  document, and with them the run of the two composite generators: which world the
  diagram generator was called in, what it returned, and that its file is in the world
  the composite generator leaves.
\<close>

lemma flowchart_run:
  assumes "fst (generate_flowchart_diagram self p t d c u w) = Inr r"
  shows "generate_flowchart_diagram self p t d c u w =
           (Inr (Diagram
                  (path_str (path_child (diagrams_folder self) (''flowchart_'' @ fst (now_stamp w) @ ''.mmd'')))
                  ''flowchart'' (create_flowchart_content p t d)),
            (snd (now_stamp w))
              \<lparr>files := (files (snd (now_stamp w)))
                 (path_child (diagrams_folder self) (''flowchart_'' @ fst (now_stamp w) @ ''.mmd'')
                    \<mapsto> create_flowchart_content p t d)\<rparr>)"
proof -
  let ?fp = "path_child (diagrams_folder self) (''flowchart_'' @ fst (now_stamp w) @ ''.mmd'')"
  from assms have "\<exists>x. fst (write_text ?fp (create_flowchart_content p t d) (snd (now_stamp w))) = Inr x"
    by (simp add: generate_flowchart_diagram_def Let_def case_prod_beta split: sum.splits)
  then obtain x where "fst (write_text ?fp (create_flowchart_content p t d) (snd (now_stamp w))) = Inr x" ..
  from write_text_returned [OF this] show ?thesis
    unfolding generate_flowchart_diagram_def Let_def case_prod_beta by simp
qed

lemma sequence_run:
  assumes "fst (generate_sequence_diagram self p t d c u w) = Inr r"
  shows "generate_sequence_diagram self p t d c u w =
           (Inr (Diagram
                  (path_str (path_child (diagrams_folder self) (''sequence_'' @ fst (now_stamp w) @ ''.mmd'')))
                  ''sequence'' (sequence_content p t u)),
            (snd (now_stamp w))
              \<lparr>files := (files (snd (now_stamp w)))
                 (path_child (diagrams_folder self) (''sequence_'' @ fst (now_stamp w) @ ''.mmd'')
                    \<mapsto> sequence_content p t u)\<rparr>)"
proof -
  let ?fp = "path_child (diagrams_folder self) (''sequence_'' @ fst (now_stamp w) @ ''.mmd'')"
  from assms have "\<exists>x. fst (write_text ?fp (sequence_content p t u) (snd (now_stamp w))) = Inr x"
    by (simp add: generate_sequence_diagram_def Let_def case_prod_beta split: sum.splits)
  then obtain x where "fst (write_text ?fp (sequence_content p t u) (snd (now_stamp w))) = Inr x" ..
  from write_text_returned [OF this] show ?thesis
    unfolding generate_sequence_diagram_def Let_def case_prod_beta by simp
qed

lemma documentation_run:
  assumes "fst (generate_documentation self p t d c u w) = Inr r"
  shows "let doc = path_child (docs_folder self) (''architecture_doc_'' @ fst (now_stamp w) @ ''.md'');
             w2 = snd (write_text doc
                         (create_documentation_content p t d (scan_codebase self t) u)
                         (snd (now_stamp w)));
             dia = path_child (diagrams_folder self) (''flowchart_'' @ fst (now_stamp w2) @ ''.mmd'');
             dr = Diagram (path_str dia) ''flowchart'' (create_flowchart_content p t d)
         in generate_flowchart_diagram self p t d c u w2 =
              (Inr dr, snd (generate_documentation self p t d c u w)) \<and>
            diagramFiles r = [diagram_file dr] \<and>
            length (diagramFiles r) = 1 \<and>
            files (snd (generate_documentation self p t d c u w)) dia = Some (content dr)"
proof -
  let ?doc = "path_child (docs_folder self) (''architecture_doc_'' @ fst (now_stamp w) @ ''.md'')"
  let ?ct = "create_documentation_content p t d (scan_codebase self t) u"
  let ?w2 = "snd (write_text ?doc ?ct (snd (now_stamp w)))"
  let ?fl = "generate_flowchart_diagram self p t d c u ?w2"
  have gd: "generate_documentation self p t d c u w =
              (case fst (write_text ?doc ?ct (snd (now_stamp w))) of
                 Inl e \<Rightarrow> (Inl e, ?w2)
               | Inr x \<Rightarrow>
                   (case fst ?fl of
                      Inl e \<Rightarrow> (Inl e, snd ?fl)
                    | Inr dr \<Rightarrow> (Inr (Document (path_str ?doc) [diagram_file dr] ?ct), snd ?fl)))"
    by (simp add: generate_documentation_def Let_def case_prod_beta split: sum.splits)
  from assms have "\<exists>dr. fst ?fl = Inr dr"
    unfolding gd by (simp split: sum.splits)
  then obtain dr where fl: "fst ?fl = Inr dr" ..
  note run = flowchart_run [OF fl]
  from assms have r: "r = Document (path_str ?doc) [diagram_file dr] ?ct \<and>
      snd (generate_documentation self p t d c u w) = snd ?fl"
    unfolding gd using fl by (simp split: sum.splits)
  have dr: "dr = Diagram (path_str (path_child (diagrams_folder self) (''flowchart_'' @ fst (now_stamp ?w2) @ ''.mmd'')))
                  ''flowchart'' (create_flowchart_content p t d)"
    using fl unfolding run by simp
  show ?thesis
    unfolding Let_def using r dr run by simp
qed

lemma usecases_run:
  assumes "fst (generate_usecases self p t d c u w) = Inr r"
  shows "let w1 = snd (now_stamp w);
             dia = path_child (diagrams_folder self) (''sequence_'' @ fst (now_stamp w1) @ ''.mmd'');
             dr = Diagram (path_str dia) ''sequence'' (sequence_content p t u);
             w2 = snd (generate_sequence_diagram self p t d c u w1);
             doc = path_child (docs_folder self) (''usecases_'' @ fst (now_stamp w) @ ''.md'')
         in generate_sequence_diagram self p t d c u w1 = (Inr dr, w2) \<and>
            snd (generate_usecases self p t d c u w) =
              snd (write_text doc (usecases_content p t u) w2) \<and>
            diagramFiles r = [diagram_file dr] \<and>
            length (diagramFiles r) = 1 \<and>
            files (snd (generate_usecases self p t d c u w)) dia = Some (content dr)"
proof -
  let ?w1 = "snd (now_stamp w)"
  let ?sq = "generate_sequence_diagram self p t d c u ?w1"
  let ?dia = "path_child (diagrams_folder self) (''sequence_'' @ fst (now_stamp ?w1) @ ''.mmd'')"
  let ?doc = "path_child (docs_folder self) (''usecases_'' @ fst (now_stamp w) @ ''.md'')"
  let ?uc = "usecases_content p t u"
  let ?wr = "write_text ?doc ?uc (snd ?sq)"
  have gu: "generate_usecases self p t d c u w =
              (case fst ?sq of
                 Inl e \<Rightarrow> (Inl e, snd ?sq)
               | Inr dr \<Rightarrow>
                   (case fst ?wr of
                      Inl e \<Rightarrow> (Inl e, snd ?wr)
                    | Inr x \<Rightarrow> (Inr (Document (path_str ?doc) [diagram_file dr] ?uc), snd ?wr)))"
    by (simp add: generate_usecases_def Let_def case_prod_beta split: sum.splits)
  from assms have "\<exists>dr. fst ?sq = Inr dr"
    unfolding gu by (simp split: sum.splits)
  then obtain dr where sq: "fst ?sq = Inr dr" ..
  note run = sequence_run [OF sq]
  from assms have "\<exists>x. fst ?wr = Inr x"
    unfolding gu using sq by (simp split: sum.splits)
  then obtain x where wr: "fst ?wr = Inr x" ..
  note written = write_text_returned [OF wr]
  from assms have r: "r = Document (path_str ?doc) [diagram_file dr] ?uc"
    unfolding gu using sq wr by simp
  have g: "generate_usecases self p t d c u w = (Inr r, snd ?wr)"
    unfolding gu using sq wr r by simp
  have dr: "dr = Diagram (path_str ?dia) ''sequence'' (sequence_content p t u)"
    using sq unfolding run by simp
  have ne: "?dia \<noteq> ?doc"
    by (simp add: path_child_def)
  have f: "files (snd ?wr) ?dia = Some (sequence_content p t u)"
    unfolding written using ne by (simp add: run)
  have s: "?sq = (Inr dr, snd ?sq)"
    using sq by (cases ?sq) simp
  show ?thesis
    unfolding Let_def using s g r dr f by simp
qed

section \<open>No generator raises a \<open>ValueError\<close>\<close>

lemma write_text_no_ValueError: "write_text p t w = (Inl (ValueError m), w') \<Longrightarrow> False"
  by (auto simp: write_text_def split: if_splits)

lemma mkdir_no_ValueError: "mkdir_exist_ok p w = (Inl (ValueError m), w') \<Longrightarrow> False"
  by (auto simp: mkdir_exist_ok_def split: if_splits)

lemma ensure_directories_no_ValueError:
  "ensure_directories self w = (Inl (ValueError m), w') \<Longrightarrow> False"
  by (auto simp: ensure_directories_def split: prod.splits sum.splits dest: mkdir_no_ValueError)

lemma flowchart_no_ValueError:
  "generate_flowchart_diagram self p t d c u w = (Inl (ValueError m), w') \<Longrightarrow> False"
  by (auto simp: generate_flowchart_diagram_def Let_def split: prod.splits sum.splits
        dest: write_text_no_ValueError)

lemma sequence_no_ValueError:
  "generate_sequence_diagram self p t d c u w = (Inl (ValueError m), w') \<Longrightarrow> False"
  by (auto simp: generate_sequence_diagram_def Let_def split: prod.splits sum.splits
        dest: write_text_no_ValueError)

lemma class_no_ValueError:
  "generate_class_diagram self p t d c u w = (Inl (ValueError m), w') \<Longrightarrow> False"
  by (auto simp: generate_class_diagram_def Let_def split: prod.splits sum.splits
        dest: write_text_no_ValueError)

lemma er_no_ValueError:
  "generate_er_diagram self p t d c u w = (Inl (ValueError m), w') \<Longrightarrow> False"
  by (auto simp: generate_er_diagram_def Let_def split: prod.splits sum.splits
        dest: write_text_no_ValueError)

lemma state_no_ValueError:
  "generate_state_diagram self p t d c u w = (Inl (ValueError m), w') \<Longrightarrow> False"
  by (auto simp: generate_state_diagram_def Let_def split: prod.splits sum.splits
        dest: write_text_no_ValueError)

lemma testcases_no_ValueError:
  "generate_testcases self p t d c u w = (Inl (ValueError m), w') \<Longrightarrow> False"
  by (auto simp: generate_testcases_def Let_def split: prod.splits sum.splits
        dest: write_text_no_ValueError)

lemma gapscan_no_ValueError:
  "generate_gapscan self p t d c u w = (Inl (ValueError m), w') \<Longrightarrow> False"
  by (auto simp: generate_gapscan_def Let_def split: prod.splits sum.splits
        dest: write_text_no_ValueError)

lemma documentation_no_ValueError:
  "generate_documentation self p t d c u w = (Inl (ValueError m), w') \<Longrightarrow> False"
  by (auto simp: generate_documentation_def Let_def split: prod.splits sum.splits
        dest: write_text_no_ValueError flowchart_no_ValueError)

lemma usecases_no_ValueError:
  "generate_usecases self p t d c u w = (Inl (ValueError m), w') \<Longrightarrow> False"
  by (auto simp: generate_usecases_def Let_def split: prod.splits sum.splits
        dest: write_text_no_ValueError sequence_no_ValueError)

lemma diagram_no_ValueError:
  "generate_diagram self p t d c u w = (Inl (ValueError m), w') \<Longrightarrow> False"
  using diagram_cases [of p t d c u]
  by (auto dest: flowchart_no_ValueError sequence_no_ValueError class_no_ValueError
        er_no_ValueError state_no_ValueError)

lemma select_branch_valid:
  "artifact_type \<in> set artifact_types \<Longrightarrow>
   select_branch artifact_type \<in>
     {DocBranch, DiagramBranch, TestcasesBranch, GapscanBranch, UsecasesBranch}"
  by (auto simp: artifact_types_def select_branch_def)

lemma run_branch_no_ValueError:
  assumes "b \<noteq> UnsupportedBranch"
    and "run_branch b at self p t d c u w = (Inl (ValueError m), w')"
  shows False
  using assms
  by (cases b) (auto dest: documentation_no_ValueError diagram_no_ValueError
        testcases_no_ValueError gapscan_no_ValueError usecases_no_ValueError)

section \<open>The adapter's merge\<close>

lemma parse_line_eq:
  "parse_line m l = (case line_pair l of None \<Rightarrow> m | Some (k, v) \<Rightarrow> m(k \<mapsto> v))"
  by (simp add: parse_line_def line_pair_def Let_def)

lemma map_add_upd_left: "m(k \<mapsto> v) ++ n = m ++ (map_of [(k, v)] ++ n)"
  by (rule ext) (simp add: map_add_def split: option.splits)

lemma foldl_parse_line:
  "foldl parse_line m ls = m ++ map_of (rev (List.map_filter line_pair ls))"
proof (induction ls arbitrary: m)
  case Nil
  then show ?case by (simp add: map_filter_simps)
next
  case (Cons l ls)
  show ?case
  proof (cases "line_pair l")
    case None
    then have "parse_line m l = m" by (simp add: parse_line_eq)
    then have "foldl parse_line m (l # ls) = foldl parse_line m ls" by simp
    also have "\<dots> = m ++ map_of (rev (List.map_filter line_pair ls))" by (rule Cons.IH)
    also have "\<dots> = m ++ map_of (rev (List.map_filter line_pair (l # ls)))"
      using None by (simp add: map_filter_simps)
    finally show ?thesis .
  next
    case (Some kv)
    obtain k v where kv: "kv = (k, v)" by (cases kv)
    have "parse_line m l = m(k \<mapsto> v)" using Some kv by (simp add: parse_line_eq)
    then have "foldl parse_line m (l # ls) = foldl parse_line (m(k \<mapsto> v)) ls" by simp
    also have "\<dots> = m(k \<mapsto> v) ++ map_of (rev (List.map_filter line_pair ls))" by (rule Cons.IH)
    also have "\<dots> = m ++ (map_of [(k, v)] ++ map_of (rev (List.map_filter line_pair ls)))"
      by (rule map_add_upd_left)
    also have "\<dots> = m ++ map_of (rev (List.map_filter line_pair ls) @ [(k, v)])"
      by (simp only: map_of_append)
    also have "\<dots> = m ++ map_of (rev (List.map_filter line_pair (l # ls)))"
      using Some kv by (simp add: map_filter_simps)
    finally show ?thesis .
  qed
qed

lemma parse_input_structured:
  assumes "CHR ''='' \<in> set input_data"
  shows "parse_input input_data context =
           (case context of None \<Rightarrow> Map.empty | Some c \<Rightarrow> c) ++ map_of (rev (text_pairs input_data))"
proof -
  have "parse_input input_data context =
          foldl parse_line (case context of None \<Rightarrow> Map.empty | Some c \<Rightarrow> Map.empty ++ c)
            (split_on (CHR 0x0A) input_data)"
    using assms by (simp add: parse_input_def Let_def)
  also have "\<dots> = (case context of None \<Rightarrow> Map.empty | Some c \<Rightarrow> Map.empty ++ c) ++
                    map_of (rev (text_pairs input_data))"
    unfolding text_pairs_def by (rule foldl_parse_line)
  finally show ?thesis by (simp split: option.splits)
qed

text \<open>A value read from a line is shorter than the whole text.\<close>

lemma length_strip: "length (strip s) \<le> length s"
proof -
  have "length (dropWhile is_space (rev (dropWhile is_space s))) \<le> length (rev (dropWhile is_space s))"
    by (rule length_dropWhile_le)
  also have "\<dots> \<le> length s" by (simp add: length_dropWhile_le)
  finally show ?thesis by (simp add: strip_def)
qed

lemma split_on_nonempty: "split_on c s \<noteq> []"
  by (induction s) (auto simp: Let_def)

lemma split_on_length: "l \<in> set (split_on c s) \<Longrightarrow> length l \<le> length s"
proof (induction s arbitrary: l)
  case Nil
  then show ?case by simp
next
  case (Cons x xs)
  show ?case
  proof (cases "x = c")
    case True
    then show ?thesis using Cons by (auto simp: le_Suc_eq)
  next
    case False
    obtain r rs where r: "split_on c xs = r # rs"
      using split_on_nonempty [of c xs] by (cases "split_on c xs") auto
    have "length r \<le> length xs" using Cons.IH [of r] r by simp
    moreover have "l' \<in> set rs \<Longrightarrow> length l' \<le> length xs" for l'
      using Cons.IH [of l'] r by simp
    ultimately show ?thesis using Cons.prems False r by (auto simp: Let_def le_Suc_eq)
  qed
qed

lemma split_value_shorter:
  assumes "CHR ''='' \<in> set l"
  shows "length (split_value l) < length l"
proof -
  have ne: "dropWhile (\<lambda>c. c \<noteq> CHR ''='') l \<noteq> []"
    using assms by (simp add: dropWhile_eq_Nil_conv)
  then have "length (tl (dropWhile (\<lambda>c. c \<noteq> CHR ''='') l)) < length (dropWhile (\<lambda>c. c \<noteq> CHR ''='') l)"
    by (cases "dropWhile (\<lambda>c. c \<noteq> CHR ''='') l") auto
  also have "\<dots> \<le> length l" by (rule length_dropWhile_le)
  finally show ?thesis by (simp add: split_value_def)
qed

lemma in_map_filter: "y \<in> set (List.map_filter f xs) \<Longrightarrow> \<exists>x \<in> set xs. f x = Some y"
  by (induction xs) (auto split: option.splits)

lemma text_pairs_shorter:
  assumes "(k, PStr v) \<in> set (text_pairs s)"
  shows "length v < length s"
proof -
  from assms obtain l where l: "l \<in> set (split_on (CHR 0x0A) s)" and lp: "line_pair l = Some (k, PStr v)"
    unfolding text_pairs_def by (blast dest: in_map_filter)
  from lp have eq: "CHR ''='' \<in> set (strip l)" and v: "v = strip (split_value (strip l))"
    by (auto simp: line_pair_def Let_def split: if_splits)
  have "length v \<le> length (split_value (strip l))" unfolding v by (rule length_strip)
  also have "\<dots> < length (strip l)" using eq by (rule split_value_shorter)
  also have "\<dots> \<le> length l" by (rule length_strip)
  also have "\<dots> \<le> length s" using l by (rule split_on_length)
  finally show ?thesis .
qed

lemma text_never_prompt:
  assumes "CHR ''='' \<in> set input_data"
    and "parse_input input_data context ''prompt'' = Some (PStr input_data)"
  shows "\<exists>c. context = Some c \<and> c ''prompt'' = Some (PStr input_data)"
proof (cases "map_of (rev (text_pairs input_data)) ''prompt''")
  case None
  then show ?thesis
    using assms(2) parse_input_structured [OF assms(1), of "context"]
    by (auto simp: map_add_def split: option.splits)
next
  case (Some v)
  then have "parse_input input_data context ''prompt'' = Some v"
    using parse_input_structured [OF assms(1), of "context"] by (simp add: map_add_def)
  then have "v = PStr input_data" using assms(2) by simp
  then have "(''prompt'', PStr input_data) \<in> set (rev (text_pairs input_data))"
    using Some by (simp only: map_of_SomeD)
  then have "(''prompt'', PStr input_data) \<in> set (text_pairs input_data)" by simp
  then have "length input_data < length input_data" by (rule text_pairs_shorter)
  then show ?thesis by simp
qed

lemma agent_missing_prompt:
  assumes "\<not> get_truthy (parse_input input_data context) ''prompt''"
  shows "agent_process self input_data context w =
           Some (failure_envelope self (ValueError (required_message ''prompt'')), w)"
  using assms by (simp add: agent_process_def process_try_def Let_def)

section \<open>C1: the footer in every generated text\<close>

text \<open>
  Whatever \<^verbatim>\<open>process\<close> returns carries the words \<^verbatim>\<open>as directed by\<close> and the user's name
  in its content, for every artifact type and diagram sub-kind except the flowchart.
\<close>

lemma content_names_user_unless_flowchart:
  assumes "fst (process self p t at d c u w) = Inr r"
    and "at = ''diagram'' \<longrightarrow>
           (case c of None \<Rightarrow> None | Some c' \<Rightarrow> map_of c' ''diagram'') \<in>
             Some ` PStr ` {''sequence'', ''class'', ''er'', ''state''}"
  shows "sublist (''as directed by '' @ u) (content r)"
proof -
  let ?W = "snd (ensure_directories self w)"
  from process_runs_branch [OF assms(1)]
  have at: "at \<in> set artifact_types"
    and run: "fst (run_branch (select_branch at) at self p t d c u ?W) = Inr r"
    by simp_all
  from artifact_type_cases [OF at] show ?thesis
  proof (elim disjE)
    assume 1: "at = ''doc''"
    have f: "fst (generate_documentation self p t d c u ?W) = Inr r"
      using run unfolding 1 by (simp add: select_branch_def)
    have cr: "content r = create_documentation_content p t d (scan_codebase self t) u"
      using documentation_result [OF f] by auto
    show ?thesis unfolding cr by (rule footer_in_documentation)
  next
    assume 2: "at = ''diagram''"
    have g: "fst (generate_diagram self p t d c u ?W) = Inr r"
      using run unfolding 2 by (simp add: select_branch_def)
    from 2 assms(2) obtain c' k where c: "c = Some c'" and m: "map_of c' ''diagram'' = Some (PStr k)"
      and k: "k \<in> {''sequence'', ''class'', ''er'', ''state''}"
      by (auto split: option.splits)
    note sel = generate_diagram_requested [OF m, of self p t d u ?W]
    from k have "k = ''sequence'' \<or> k = ''class'' \<or> k = ''er'' \<or> k = ''state''" by simp
    then show ?thesis
    proof (elim disjE)
      assume 1: "k = ''sequence''"
      have f: "fst (generate_sequence_diagram self p t d (Some c') u ?W) = Inr r"
        using g unfolding c sel 1 by simp
      have cr: "content r = sequence_content p t u"
        using sequence_result [OF f] by simp
      show ?thesis unfolding cr by (rule footer_in_sequence)
    next
      assume 2: "k = ''class''"
      have f: "fst (generate_class_diagram self p t d (Some c') u ?W) = Inr r"
        using g unfolding c sel 2 by simp
      have cr: "content r = class_content t u"
        using class_result [OF f] by simp
      show ?thesis unfolding cr by (rule footer_in_class)
    next
      assume 3: "k = ''er''"
      have f: "fst (generate_er_diagram self p t d (Some c') u ?W) = Inr r"
        using g unfolding c sel 3 by simp
      have cr: "content r = er_content u"
        using er_result [OF f] by simp
      show ?thesis unfolding cr by (rule footer_in_er)
    next
      assume 4: "k = ''state''"
      have f: "fst (generate_state_diagram self p t d (Some c') u ?W) = Inr r"
        using g unfolding c sel 4 by simp
      have cr: "content r = state_content p u"
        using state_result [OF f] by simp
      show ?thesis unfolding cr by (rule footer_in_state)
    qed
  next
    assume 3: "at = ''testcases''"
    have f: "fst (generate_testcases self p t d c u ?W) = Inr r"
      using run unfolding 3 by (simp add: select_branch_def)
    have cr: "content r = testcases_content p t u"
      using testcases_result [OF f] by simp
    show ?thesis unfolding cr by (rule footer_in_testcases)
  next
    assume 4: "at = ''gapscan''"
    have f: "fst (generate_gapscan self p t d c u ?W) = Inr r"
      using run unfolding 4 by (simp add: select_branch_def)
    have cr: "content r = gapscan_content p t u"
      using gapscan_result [OF f] by simp
    show ?thesis unfolding cr by (rule footer_in_gapscan)
  next
    assume 5: "at = ''usecases''"
    have f: "fst (generate_usecases self p t d c u ?W) = Inr r"
      using run unfolding 5 by (simp add: select_branch_def)
    have cr: "content r = usecases_content p t u"
      using usecases_result [OF f] by auto
    show ?thesis unfolding cr by (rule footer_in_usecases)
  qed
qed

text \<open>
  Claim C1 says that the content of every kind, the flowchart diagram in particular,
  contains \<^verbatim>\<open>as directed by {user_name}\<close>. The configuration requires the footer and
  every other generator writes it, but \<^verbatim>\<open>_create_flowchart_content\<close> does not receive the
  user's name at all: a diagram request for user \<^verbatim>\<open>Alice\<close> with no constraints returns the
  flowchart skeleton, in which the words \<^verbatim>\<open>as directed by Alice\<close> do not occur.
\<close>

theorem flowchart_content_lacks_footer:
  "fst (process example_chatmode ''P'' ''T'' ''diagram'' ''overview'' None ''Alice'' example_world) =
     Inr (Diagram ''ws/docs/diagrams/flowchart_20250101_120000.mmd'' ''flowchart''
            (create_flowchart_content ''P'' ''T'' ''overview'')) \<and>
   \<not> sublist ''as directed by Alice'' (create_flowchart_content ''P'' ''T'' ''overview'')"
proof -
  have a: "fst (process example_chatmode ''P'' ''T'' ''diagram'' ''overview'' None ''Alice'' example_world) =
     Inr (Diagram ''ws/docs/diagrams/flowchart_20250101_120000.mmd'' ''flowchart''
            (create_flowchart_content ''P'' ''T'' ''overview''))"
    by (simp add: eval_defs generate_flowchart_diagram_def)
  have b: "\<not> sublist ''as directed by Alice'' (create_flowchart_content ''P'' ''T'' ''overview'')"
    unfolding create_flowchart_content_def by code_simp
  from a b show ?thesis by (rule conjI)
qed

section \<open>C2: invalid arguments are rejected before any effect\<close>

text \<open>
  Claim C2: a call of \<^verbatim>\<open>process\<close> whose artifact type is not one of the five, or whose
  depth is not one of the three, fails with a \<^verbatim>\<open>ValueError\<close> whose message ends in the
  offending value (the artifact type when that is invalid, the depth otherwise), and
  the world it leaves is the world it found: no directory made, no file written, the
  clock not read.
\<close>

theorem process_rejects_invalid_arguments:
  assumes "artifact_type \<notin> set artifact_types \<or> depth \<notin> set depths"
  shows "process self prompt targets artifact_type depth constraints user_name w =
           (Inl (ValueError
                  (if artifact_type \<notin> set artifact_types
                   then ''Invalid artifact_type: '' @ artifact_type
                   else ''Invalid depth: '' @ depth)), w)"
  using assms by (simp add: process_def)

text \<open>The artifact type \<^verbatim>\<open>bogus\<close> on the example workspace.\<close>

theorem process_rejects_invalid_arguments_witness:
  "''bogus'' \<notin> set artifact_types \<and>
   process example_chatmode ''P'' ''T'' ''bogus'' ''overview'' None ''Alice'' example_world =
     (Inl (ValueError ''Invalid artifact_type: bogus''), example_world)"
  using process_rejects_invalid_arguments
          [of "''bogus''" "''overview''" example_chatmode "''P''" "''T''" None "''Alice''" example_world]
  by (simp add: artifact_types_def)

section \<open>C3: the diagram that accompanies a document\<close>

text \<open>
  Claim C3: when \<^verbatim>\<open>process\<close> returns \<open>r\<close> for the artifact type \<^verbatim>\<open>doc\<close>, the call has run
  the flowchart generator, in the world \<open>w2\<close> it had reached after writing the document;
  that generator returned the diagram \<open>dr\<close> and left the world that \<^verbatim>\<open>process\<close> leaves; the
  list \<^verbatim>\<open>diagramFiles\<close> of \<open>r\<close> is the one file of \<open>dr\<close>; and that file holds the flowchart
  in the final world. For \<^verbatim>\<open>usecases\<close> the call has run the sequence generator, in the
  world \<open>w1\<close> after its own reading of the clock, then written the document in the world
  \<open>w2\<close> that generator left; \<^verbatim>\<open>diagramFiles\<close> is the one file of the sequence diagram, which
  is still there in the final world. The constraints are arbitrary, so a \<^verbatim>\<open>diagram\<close> key
  in them changes nothing. And in a workspace that can take the output, with a valid
  depth, both requests do return.
\<close>

theorem composite_artifacts_attach_one_diagram:
  "(fst (process self prompt targets ''doc'' depth constraints user_name w) = Inr r \<longrightarrow>
      (let w0 = snd (ensure_directories self w);
           doc = path_child (docs_folder self) (''architecture_doc_'' @ fst (now_stamp w0) @ ''.md'');
           w2 = snd (write_text doc
                       (create_documentation_content prompt targets depth
                          (scan_codebase self targets) user_name)
                       (snd (now_stamp w0)));
           dia = path_child (diagrams_folder self) (''flowchart_'' @ fst (now_stamp w2) @ ''.mmd'');
           dr = Diagram (path_str dia) ''flowchart'' (create_flowchart_content prompt targets depth)
       in generate_flowchart_diagram self prompt targets depth constraints user_name w2 =
            (Inr dr, snd (process self prompt targets ''doc'' depth constraints user_name w)) \<and>
          diagramFiles r = [diagram_file dr] \<and>
          length (diagramFiles r) = 1 \<and>
          files (snd (process self prompt targets ''doc'' depth constraints user_name w)) dia =
            Some (content dr))) \<and>
   (fst (process self prompt targets ''usecases'' depth constraints user_name w) = Inr r \<longrightarrow>
      (let w0 = snd (ensure_directories self w);
           w1 = snd (now_stamp w0);
           dia = path_child (diagrams_folder self) (''sequence_'' @ fst (now_stamp w1) @ ''.mmd'');
           dr = Diagram (path_str dia) ''sequence'' (sequence_content prompt targets user_name);
           w2 = snd (generate_sequence_diagram self prompt targets depth constraints user_name w1);
           doc = path_child (docs_folder self) (''usecases_'' @ fst (now_stamp w0) @ ''.md'')
       in generate_sequence_diagram self prompt targets depth constraints user_name w1 = (Inr dr, w2) \<and>
          snd (process self prompt targets ''usecases'' depth constraints user_name w) =
            snd (write_text doc (usecases_content prompt targets user_name) w2) \<and>
          diagramFiles r = [diagram_file dr] \<and>
          length (diagramFiles r) = 1 \<and>
          files (snd (process self prompt targets ''usecases'' depth constraints user_name w)) dia =
            Some (content dr))) \<and>
   (depth \<in> set depths \<and> workspace_ready ws w \<longrightarrow>
      (\<exists>r1. fst (process (init_chatmode ws) prompt targets ''doc'' depth constraints user_name w) = Inr r1) \<and>
      (\<exists>r2. fst (process (init_chatmode ws) prompt targets ''usecases'' depth constraints user_name w) = Inr r2))"
proof (intro conjI impI)
  assume a: "fst (process self prompt targets ''doc'' depth constraints user_name w) = Inr r"
  have p: "process self prompt targets ''doc'' depth constraints user_name w =
           generate_documentation self prompt targets depth constraints user_name
             (snd (ensure_directories self w))"
    using process_returned [OF a] by (simp add: select_branch_def)
  have g: "fst (generate_documentation self prompt targets depth constraints user_name
                  (snd (ensure_directories self w))) = Inr r"
    using a unfolding p .
  from documentation_run [OF g]
  show "let w0 = snd (ensure_directories self w);
           doc = path_child (docs_folder self) (''architecture_doc_'' @ fst (now_stamp w0) @ ''.md'');
           w2 = snd (write_text doc
                       (create_documentation_content prompt targets depth
                          (scan_codebase self targets) user_name)
                       (snd (now_stamp w0)));
           dia = path_child (diagrams_folder self) (''flowchart_'' @ fst (now_stamp w2) @ ''.mmd'');
           dr = Diagram (path_str dia) ''flowchart'' (create_flowchart_content prompt targets depth)
       in generate_flowchart_diagram self prompt targets depth constraints user_name w2 =
            (Inr dr, snd (process self prompt targets ''doc'' depth constraints user_name w)) \<and>
          diagramFiles r = [diagram_file dr] \<and>
          length (diagramFiles r) = 1 \<and>
          files (snd (process self prompt targets ''doc'' depth constraints user_name w)) dia =
            Some (content dr)"
    unfolding Let_def p .
next
  assume a: "fst (process self prompt targets ''usecases'' depth constraints user_name w) = Inr r"
  have p: "process self prompt targets ''usecases'' depth constraints user_name w =
           generate_usecases self prompt targets depth constraints user_name
             (snd (ensure_directories self w))"
    using process_returned [OF a] by (simp add: select_branch_def)
  have g: "fst (generate_usecases self prompt targets depth constraints user_name
                  (snd (ensure_directories self w))) = Inr r"
    using a unfolding p .
  from usecases_run [OF g]
  show "let w0 = snd (ensure_directories self w);
           w1 = snd (now_stamp w0);
           dia = path_child (diagrams_folder self) (''sequence_'' @ fst (now_stamp w1) @ ''.mmd'');
           dr = Diagram (path_str dia) ''sequence'' (sequence_content prompt targets user_name);
           w2 = snd (generate_sequence_diagram self prompt targets depth constraints user_name w1);
           doc = path_child (docs_folder self) (''usecases_'' @ fst (now_stamp w0) @ ''.md'')
       in generate_sequence_diagram self prompt targets depth constraints user_name w1 = (Inr dr, w2) \<and>
          snd (process self prompt targets ''usecases'' depth constraints user_name w) =
            snd (write_text doc (usecases_content prompt targets user_name) w2) \<and>
          diagramFiles r = [diagram_file dr] \<and>
          length (diagramFiles r) = 1 \<and>
          files (snd (process self prompt targets ''usecases'' depth constraints user_name w)) dia =
            Some (content dr)"
    unfolding Let_def p .
next
  assume h: "depth \<in> set depths \<and> workspace_ready ws w"
  have at: "''doc'' \<in> set artifact_types" by (simp add: artifact_types_def)
  from h process_returns_in_ready_workspace [OF at, of depth ws w prompt targets constraints user_name]
  show "\<exists>r1. fst (process (init_chatmode ws) prompt targets ''doc'' depth constraints user_name w) = Inr r1"
    by simp
next
  assume h: "depth \<in> set depths \<and> workspace_ready ws w"
  have at: "''usecases'' \<in> set artifact_types" by (simp add: artifact_types_def)
  from h process_returns_in_ready_workspace [OF at, of depth ws w prompt targets constraints user_name]
  show "\<exists>r2. fst (process (init_chatmode ws) prompt targets ''usecases'' depth constraints user_name w) = Inr r2"
    by simp
qed

text \<open>
  Both requests on the example workspace, the use cases with a \<^verbatim>\<open>diagram\<close> constraint
  asking for a class diagram: each returns with one diagram file, which is on disk.
\<close>

theorem composite_artifacts_attach_one_diagram_witness:
  "fst (process example_chatmode ''P'' ''T'' ''doc'' ''overview'' None ''Alice'' example_world) =
     Inr (Document ''ws/docs/architecture_doc_20250101_120000.md''
            [''ws/docs/diagrams/flowchart_20250101_120000.mmd'']
            (create_documentation_content ''P'' ''T'' ''overview''
               (scan_codebase example_chatmode ''T'') ''Alice'')) \<and>
   files (snd (process example_chatmode ''P'' ''T'' ''doc'' ''overview'' None ''Alice'' example_world))
     [''ws'', ''docs'', ''diagrams'', ''flowchart_20250101_120000.mmd''] =
     Some (create_flowchart_content ''P'' ''T'' ''overview'') \<and>
   fst (process example_chatmode ''P'' ''T'' ''usecases'' ''overview''
          (Some [(''diagram'', PStr ''class'')]) ''Alice'' example_world) =
     Inr (Document ''ws/docs/usecases_20250101_120000.md''
            [''ws/docs/diagrams/sequence_20250101_120000.mmd'']
            (usecases_content ''P'' ''T'' ''Alice'')) \<and>
   files (snd (process example_chatmode ''P'' ''T'' ''usecases'' ''overview''
                 (Some [(''diagram'', PStr ''class'')]) ''Alice'' example_world))
     [''ws'', ''docs'', ''diagrams'', ''sequence_20250101_120000.mmd''] =
     Some (sequence_content ''P'' ''T'' ''Alice'') \<and>
   ''overview'' \<in> set depths \<and>
   workspace_ready [''ws''] example_world \<and>
   (\<exists>r1. fst (process (init_chatmode [''ws'']) ''P'' ''T'' ''doc'' ''overview'' None ''Alice''
                example_world) = Inr r1)"
proof -
  have a: "fst (process example_chatmode ''P'' ''T'' ''doc'' ''overview'' None ''Alice'' example_world) =
     Inr (Document ''ws/docs/architecture_doc_20250101_120000.md''
            [''ws/docs/diagrams/flowchart_20250101_120000.mmd'']
            (create_documentation_content ''P'' ''T'' ''overview''
               (scan_codebase example_chatmode ''T'') ''Alice''))"
    by (simp add: eval_defs generate_documentation_def generate_flowchart_diagram_def)
  have b: "fst (process example_chatmode ''P'' ''T'' ''usecases'' ''overview''
          (Some [(''diagram'', PStr ''class'')]) ''Alice'' example_world) =
     Inr (Document ''ws/docs/usecases_20250101_120000.md''
            [''ws/docs/diagrams/sequence_20250101_120000.mmd'']
            (usecases_content ''P'' ''T'' ''Alice''))"
    by (simp add: eval_defs generate_usecases_def generate_sequence_diagram_def)
  have d: "''overview'' \<in> set depths" by (simp add: depths_def)
  note rd = example_world_ready
  note t1 = composite_artifacts_attach_one_diagram
         [where self = example_chatmode and prompt = "''P''" and targets = "''T''"
            and depth = "''overview''" and constraints = None and user_name = "''Alice''"
            and w = example_world and ws = "[''ws'']"
            and r = "Document ''ws/docs/architecture_doc_20250101_120000.md''
                       [''ws/docs/diagrams/flowchart_20250101_120000.mmd'']
                       (create_documentation_content ''P'' ''T'' ''overview''
                          (scan_codebase example_chatmode ''T'') ''Alice'')"]
  note t2 = composite_artifacts_attach_one_diagram
         [where self = example_chatmode and prompt = "''P''" and targets = "''T''"
            and depth = "''overview''" and constraints = "Some [(''diagram'', PStr ''class'')]"
            and user_name = "''Alice''" and w = example_world and ws = "[''ws'']"
            and r = "Document ''ws/docs/usecases_20250101_120000.md''
                       [''ws/docs/diagrams/sequence_20250101_120000.mmd'']
                       (usecases_content ''P'' ''T'' ''Alice'')"]
  from t1 d rd
  have e: "\<exists>r1. fst (process (init_chatmode [''ws'']) ''P'' ''T'' ''doc'' ''overview'' None ''Alice''
                example_world) = Inr r1"
    by simp
  have c1: "files (snd (process example_chatmode ''P'' ''T'' ''doc'' ''overview'' None ''Alice'' example_world))
     [''ws'', ''docs'', ''diagrams'', ''flowchart_20250101_120000.mmd''] =
     Some (create_flowchart_content ''P'' ''T'' ''overview'')"
    using t1 a
    by (simp add: eval_defs generate_documentation_def generate_flowchart_diagram_def)
  have c2: "files (snd (process example_chatmode ''P'' ''T'' ''usecases'' ''overview''
                 (Some [(''diagram'', PStr ''class'')]) ''Alice'' example_world))
     [''ws'', ''docs'', ''diagrams'', ''sequence_20250101_120000.mmd''] =
     Some (sequence_content ''P'' ''T'' ''Alice'')"
    using t2 b
    by (simp add: eval_defs generate_usecases_def generate_sequence_diagram_def)
  from a c1 b c2 d rd e show ?thesis by (intro conjI)
qed

section \<open>C4: the choice of the diagram sub-kind\<close>

text \<open>
  Claim C4: for the artifact type \<^verbatim>\<open>diagram\<close>, once the depth is valid and the two
  directories are there, \<^verbatim>\<open>process\<close> is the generator of the sub-kind that the constraints
  name under \<^verbatim>\<open>diagram\<close>, when that is one of the five; in every other case (no
  constraints, no such key, any other value) it is the flowchart generator, so the
  routing itself raises nothing. \<open>sel\<close> is what the constraints hold under the key, if
  anything.
\<close>

theorem diagram_subkind_selection:
  assumes "depth \<in> set depths"
    and "ensure_directories self w = (Inr (), w1)"
    and "sel = (case constraints of None \<Rightarrow> None | Some c \<Rightarrow> map_of c ''diagram'')"
  shows "process self prompt targets ''diagram'' depth constraints user_name w =
           (if sel = Some (PStr ''sequence'') then
              generate_sequence_diagram self prompt targets depth constraints user_name w1
            else if sel = Some (PStr ''flowchart'') then
              generate_flowchart_diagram self prompt targets depth constraints user_name w1
            else if sel = Some (PStr ''class'') then
              generate_class_diagram self prompt targets depth constraints user_name w1
            else if sel = Some (PStr ''er'') then
              generate_er_diagram self prompt targets depth constraints user_name w1
            else if sel = Some (PStr ''state'') then
              generate_state_diagram self prompt targets depth constraints user_name w1
            else
              generate_flowchart_diagram self prompt targets depth constraints user_name w1) \<and>
         (sel \<notin> Some ` PStr ` set get_supported_diagram_types \<longrightarrow>
            process self prompt targets ''diagram'' depth constraints user_name w =
              generate_flowchart_diagram self prompt targets depth constraints user_name w1)"
proof -
  have g: "generate_diagram self prompt targets depth constraints user_name w1 =
           (if sel = Some (PStr ''sequence'') then
              generate_sequence_diagram self prompt targets depth constraints user_name w1
            else if sel = Some (PStr ''flowchart'') then
              generate_flowchart_diagram self prompt targets depth constraints user_name w1
            else if sel = Some (PStr ''class'') then
              generate_class_diagram self prompt targets depth constraints user_name w1
            else if sel = Some (PStr ''er'') then
              generate_er_diagram self prompt targets depth constraints user_name w1
            else if sel = Some (PStr ''state'') then
              generate_state_diagram self prompt targets depth constraints user_name w1
            else
              generate_flowchart_diagram self prompt targets depth constraints user_name w1)"
    unfolding assms(3)
    by (cases constraints) (auto simp: generate_diagram_def Let_def)
  show ?thesis
    unfolding process_diagram [OF assms(1,2)] g
    by (auto simp: get_supported_diagram_types_def)
qed

text \<open>
  On the example workspace: the constraint \<^verbatim>\<open>er\<close> selects the entity-relationship
  generator; the value 3 and the absence of constraints select the flowchart.
\<close>

theorem diagram_subkind_selection_witness:
  "''overview'' \<in> set depths \<and>
   ensure_directories example_chatmode example_world = (Inr (), example_prepared_world) \<and>
   process example_chatmode ''P'' ''T'' ''diagram'' ''overview''
       (Some [(''diagram'', PStr ''er'')]) ''Alice'' example_world =
     generate_er_diagram example_chatmode ''P'' ''T'' ''overview''
       (Some [(''diagram'', PStr ''er'')]) ''Alice'' example_prepared_world \<and>
   Some (PInt 3) \<notin> Some ` PStr ` set get_supported_diagram_types \<and>
   process example_chatmode ''P'' ''T'' ''diagram'' ''overview''
       (Some [(''diagram'', PInt 3)]) ''Alice'' example_world =
     generate_flowchart_diagram example_chatmode ''P'' ''T'' ''overview''
       (Some [(''diagram'', PInt 3)]) ''Alice'' example_prepared_world \<and>
   None \<notin> Some ` PStr ` set get_supported_diagram_types \<and>
   process example_chatmode ''P'' ''T'' ''diagram'' ''overview'' None ''Alice'' example_world =
     generate_flowchart_diagram example_chatmode ''P'' ''T'' ''overview'' None ''Alice''
       example_prepared_world"
proof -
  have d: "''overview'' \<in> set depths" by (simp add: depths_def)
  note e = ensure_directories_example
  from diagram_subkind_selection
         [where constraints = "Some [(''diagram'', PStr ''er'')]" and prompt = "''P''"
            and targets = "''T''" and user_name = "''Alice''", OF d e refl]
  have a: "process example_chatmode ''P'' ''T'' ''diagram'' ''overview''
       (Some [(''diagram'', PStr ''er'')]) ''Alice'' example_world =
     generate_er_diagram example_chatmode ''P'' ''T'' ''overview''
       (Some [(''diagram'', PStr ''er'')]) ''Alice'' example_prepared_world"
    by simp
  have n3: "Some (PInt 3) \<notin> Some ` PStr ` set get_supported_diagram_types" by auto
  from diagram_subkind_selection
         [where constraints = "Some [(''diagram'', PInt 3)]" and prompt = "''P''"
            and targets = "''T''" and user_name = "''Alice''", OF d e refl]
  have b: "process example_chatmode ''P'' ''T'' ''diagram'' ''overview''
       (Some [(''diagram'', PInt 3)]) ''Alice'' example_world =
     generate_flowchart_diagram example_chatmode ''P'' ''T'' ''overview''
       (Some [(''diagram'', PInt 3)]) ''Alice'' example_prepared_world"
    by simp
  have nn: "None \<notin> Some ` PStr ` set get_supported_diagram_types" by auto
  from diagram_subkind_selection
         [where constraints = None and prompt = "''P''"
            and targets = "''T''" and user_name = "''Alice''", OF d e refl]
  have c: "process example_chatmode ''P'' ''T'' ''diagram'' ''overview'' None ''Alice'' example_world =
     generate_flowchart_diagram example_chatmode ''P'' ''T'' ''overview'' None ''Alice''
       example_prepared_world"
    by simp
  from d e a n3 b nn c show ?thesis by (intro conjI)
qed

section \<open>C5: the kind and the root keyword of a requested diagram\<close>

lemma root_in_sequence: "sublist ''sequenceDiagram'' (sequence_content p t u)"
  unfolding sequence_content_def
  by (rule sublist_append_right_intro) (simp add: sublist_code)

lemma root_in_flowchart: "sublist ''flowchart TD'' (create_flowchart_content p t d)"
  unfolding create_flowchart_content_def
  by (rule sublist_append_right_intro) (simp add: sublist_code)

lemma root_in_class: "sublist ''classDiagram'' (class_content t u)"
  unfolding class_content_def
  by (rule sublist_append_right_intro) (simp add: sublist_code)

lemma root_in_er: "sublist ''erDiagram'' (er_content u)"
  unfolding er_content_def
  by (rule sublist_append_right_intro) (simp add: sublist_code)

lemma root_in_state: "sublist ''stateDiagram-v2'' (state_content p u)"
  unfolding state_content_def
  by (rule sublist_append_right_intro) (simp add: sublist_code)

lemma diagram_kind_of_result:
  assumes "k \<in> set get_supported_diagram_types"
    and "map_of c ''diagram'' = Some (PStr k)"
    and "fst (process self prompt targets ''diagram'' depth (Some c) user_name w) = Inr r"
  shows "diagram_type r = k \<and>
         sublist (if k = ''sequence'' then ''sequenceDiagram''
                  else if k = ''flowchart'' then ''flowchart TD''
                  else if k = ''class'' then ''classDiagram''
                  else if k = ''er'' then ''erDiagram''
                  else ''stateDiagram-v2'') (content r)"
proof -
  let ?W = "snd (ensure_directories self w)"
  have g: "fst (generate_diagram self prompt targets depth (Some c) user_name ?W) = Inr r"
    using process_runs_branch [OF assms(3)] by (simp add: select_branch_def)
  note sel = generate_diagram_requested [OF assms(2), of self prompt targets depth user_name ?W]
  from assms(1) have "k = ''sequence'' \<or> k = ''flowchart'' \<or> k = ''class'' \<or> k = ''er'' \<or> k = ''state''"
    by (simp add: get_supported_diagram_types_def)
  then show ?thesis
  proof (elim disjE)
    assume 1: "k = ''sequence''"
    have "fst (generate_sequence_diagram self prompt targets depth (Some c) user_name ?W) = Inr r"
      using g unfolding sel 1 by simp
    from sequence_result [OF this] show ?thesis
      unfolding 1 by (simp add: root_in_sequence)
  next
    assume 2: "k = ''flowchart''"
    have "fst (generate_flowchart_diagram self prompt targets depth (Some c) user_name ?W) = Inr r"
      using g unfolding sel 2 by simp
    from flowchart_result [OF this] show ?thesis
      unfolding 2 by (simp add: root_in_flowchart)
  next
    assume 3: "k = ''class''"
    have "fst (generate_class_diagram self prompt targets depth (Some c) user_name ?W) = Inr r"
      using g unfolding sel 3 by simp
    from class_result [OF this] show ?thesis
      unfolding 3 by (simp add: root_in_class)
  next
    assume 4: "k = ''er''"
    have "fst (generate_er_diagram self prompt targets depth (Some c) user_name ?W) = Inr r"
      using g unfolding sel 4 by simp
    from er_result [OF this] show ?thesis
      unfolding 4 by (simp add: root_in_er)
  next
    assume 5: "k = ''state''"
    have "fst (generate_state_diagram self prompt targets depth (Some c) user_name ?W) = Inr r"
      using g unfolding sel 5 by simp
    from state_result [OF this] show ?thesis
      unfolding 5 by (simp add: root_in_state)
  qed
qed

text \<open>
  Claim C5: let the constraints name one of the five sub-kinds under \<^verbatim>\<open>diagram\<close>. Whenever
  \<^verbatim>\<open>process\<close> returns for the artifact type \<^verbatim>\<open>diagram\<close>, the result's \<^verbatim>\<open>diagram_type\<close> is
  that sub-kind and its content contains the root keyword of that sub-kind's skeleton.
  And it does return such a result, for each of the five, whenever the depth is valid
  and the workspace can take the output.
\<close>

theorem diagram_kind_and_root_keyword:
  assumes "k \<in> set get_supported_diagram_types"
    and "map_of c ''diagram'' = Some (PStr k)"
  shows "(\<forall>r. fst (process self prompt targets ''diagram'' depth (Some c) user_name w) = Inr r \<longrightarrow>
            diagram_type r = k \<and>
            sublist (if k = ''sequence'' then ''sequenceDiagram''
                     else if k = ''flowchart'' then ''flowchart TD''
                     else if k = ''class'' then ''classDiagram''
                     else if k = ''er'' then ''erDiagram''
                     else ''stateDiagram-v2'') (content r)) \<and>
         (depth \<in> set depths \<and> workspace_ready ws w \<longrightarrow>
            (\<exists>r. fst (process (init_chatmode ws) prompt targets ''diagram'' depth (Some c) user_name w) = Inr r \<and>
                 diagram_type r = k \<and>
                 sublist (if k = ''sequence'' then ''sequenceDiagram''
                          else if k = ''flowchart'' then ''flowchart TD''
                          else if k = ''class'' then ''classDiagram''
                          else if k = ''er'' then ''erDiagram''
                          else ''stateDiagram-v2'') (content r)))"
proof (rule conjI)
  show "\<forall>r. fst (process self prompt targets ''diagram'' depth (Some c) user_name w) = Inr r \<longrightarrow>
            diagram_type r = k \<and>
            sublist (if k = ''sequence'' then ''sequenceDiagram''
                     else if k = ''flowchart'' then ''flowchart TD''
                     else if k = ''class'' then ''classDiagram''
                     else if k = ''er'' then ''erDiagram''
                     else ''stateDiagram-v2'') (content r)"
  proof (rule allI, rule impI)
    fix r
    assume "fst (process self prompt targets ''diagram'' depth (Some c) user_name w) = Inr r"
    with assms show "diagram_type r = k \<and>
            sublist (if k = ''sequence'' then ''sequenceDiagram''
                     else if k = ''flowchart'' then ''flowchart TD''
                     else if k = ''class'' then ''classDiagram''
                     else if k = ''er'' then ''erDiagram''
                     else ''stateDiagram-v2'') (content r)"
      by (rule diagram_kind_of_result)
  qed
next
  show "depth \<in> set depths \<and> workspace_ready ws w \<longrightarrow>
            (\<exists>r. fst (process (init_chatmode ws) prompt targets ''diagram'' depth (Some c) user_name w) = Inr r \<and>
                 diagram_type r = k \<and>
                 sublist (if k = ''sequence'' then ''sequenceDiagram''
                          else if k = ''flowchart'' then ''flowchart TD''
                          else if k = ''class'' then ''classDiagram''
                          else if k = ''er'' then ''erDiagram''
                          else ''stateDiagram-v2'') (content r))"
  proof (rule impI)
    assume h: "depth \<in> set depths \<and> workspace_ready ws w"
    have at: "''diagram'' \<in> set artifact_types" by (simp add: artifact_types_def)
    from h have d: "depth \<in> set depths" and rd: "workspace_ready ws w" by simp_all
    from process_returns_in_ready_workspace [OF at d rd, of prompt targets "Some c" user_name]
    obtain r where r: "fst (process (init_chatmode ws) prompt targets ''diagram'' depth (Some c) user_name w) = Inr r" ..
    note kr = diagram_kind_of_result [OF assms r]
    show "\<exists>r. fst (process (init_chatmode ws) prompt targets ''diagram'' depth (Some c) user_name w) = Inr r \<and>
                 diagram_type r = k \<and>
                 sublist (if k = ''sequence'' then ''sequenceDiagram''
                          else if k = ''flowchart'' then ''flowchart TD''
                          else if k = ''class'' then ''classDiagram''
                          else if k = ''er'' then ''erDiagram''
                          else ''stateDiagram-v2'') (content r)"
      by (rule exI [of _ r]) (rule conjI [OF r kr])
  qed
qed

text \<open>
  The example workspace: the theorem at the state diagram, and the five requests
  evaluated, each returning the diagram of its kind.
\<close>

theorem diagram_kind_and_root_keyword_witness:
  "''state'' \<in> set get_supported_diagram_types \<and>
   map_of [(''diagram'', PStr ''state'')] ''diagram'' = Some (PStr ''state'') \<and>
   ''overview'' \<in> set depths \<and>
   workspace_ready [''ws''] example_world \<and>
   (\<exists>r. fst (process (init_chatmode [''ws'']) ''P'' ''T'' ''diagram'' ''overview''
               (Some [(''diagram'', PStr ''state'')]) ''Alice'' example_world) = Inr r \<and>
        diagram_type r = ''state'' \<and> sublist ''stateDiagram-v2'' (content r)) \<and>
   fst (process example_chatmode ''P'' ''T'' ''diagram'' ''overview''
          (Some [(''diagram'', PStr ''sequence'')]) ''Alice'' example_world) =
     Inr (Diagram ''ws/docs/diagrams/sequence_20250101_120000.mmd'' ''sequence''
            (sequence_content ''P'' ''T'' ''Alice'')) \<and>
   fst (process example_chatmode ''P'' ''T'' ''diagram'' ''overview''
          (Some [(''diagram'', PStr ''flowchart'')]) ''Alice'' example_world) =
     Inr (Diagram ''ws/docs/diagrams/flowchart_20250101_120000.mmd'' ''flowchart''
            (create_flowchart_content ''P'' ''T'' ''overview'')) \<and>
   fst (process example_chatmode ''P'' ''T'' ''diagram'' ''overview''
          (Some [(''diagram'', PStr ''class'')]) ''Alice'' example_world) =
     Inr (Diagram ''ws/docs/diagrams/class_20250101_120000.mmd'' ''class''
            (class_content ''T'' ''Alice'')) \<and>
   fst (process example_chatmode ''P'' ''T'' ''diagram'' ''overview''
          (Some [(''diagram'', PStr ''er'')]) ''Alice'' example_world) =
     Inr (Diagram ''ws/docs/diagrams/er_20250101_120000.mmd'' ''er'' (er_content ''Alice'')) \<and>
   fst (process example_chatmode ''P'' ''T'' ''diagram'' ''overview''
          (Some [(''diagram'', PStr ''state'')]) ''Alice'' example_world) =
     Inr (Diagram ''ws/docs/diagrams/state_20250101_120000.mmd'' ''state''
            (state_content ''P'' ''Alice''))"
proof -
  have k: "''state'' \<in> set get_supported_diagram_types"
    by (simp add: get_supported_diagram_types_def)
  have m: "map_of [(''diagram'', PStr ''state'')] ''diagram'' = Some (PStr ''state'')"
    by simp
  have d: "''overview'' \<in> set depths" by (simp add: depths_def)
  note rd = example_world_ready
  from diagram_kind_and_root_keyword
         [OF k m, where depth = "''overview''" and ws = "[''ws'']" and w = example_world
            and prompt = "''P''" and targets = "''T''" and user_name = "''Alice''"] d rd
  have e: "\<exists>r. fst (process (init_chatmode [''ws'']) ''P'' ''T'' ''diagram'' ''overview''
               (Some [(''diagram'', PStr ''state'')]) ''Alice'' example_world) = Inr r \<and>
        diagram_type r = ''state'' \<and> sublist ''stateDiagram-v2'' (content r)"
    by simp
  have s1: "fst (process example_chatmode ''P'' ''T'' ''diagram'' ''overview''
          (Some [(''diagram'', PStr ''sequence'')]) ''Alice'' example_world) =
     Inr (Diagram ''ws/docs/diagrams/sequence_20250101_120000.mmd'' ''sequence''
            (sequence_content ''P'' ''T'' ''Alice''))"
    by (simp add: eval_defs generate_sequence_diagram_def)
  have s2: "fst (process example_chatmode ''P'' ''T'' ''diagram'' ''overview''
          (Some [(''diagram'', PStr ''flowchart'')]) ''Alice'' example_world) =
     Inr (Diagram ''ws/docs/diagrams/flowchart_20250101_120000.mmd'' ''flowchart''
            (create_flowchart_content ''P'' ''T'' ''overview''))"
    by (simp add: eval_defs generate_flowchart_diagram_def)
  have s3: "fst (process example_chatmode ''P'' ''T'' ''diagram'' ''overview''
          (Some [(''diagram'', PStr ''class'')]) ''Alice'' example_world) =
     Inr (Diagram ''ws/docs/diagrams/class_20250101_120000.mmd'' ''class''
            (class_content ''T'' ''Alice''))"
    by (simp add: eval_defs generate_class_diagram_def)
  have s4: "fst (process example_chatmode ''P'' ''T'' ''diagram'' ''overview''
          (Some [(''diagram'', PStr ''er'')]) ''Alice'' example_world) =
     Inr (Diagram ''ws/docs/diagrams/er_20250101_120000.mmd'' ''er'' (er_content ''Alice''))"
    by (simp add: eval_defs generate_er_diagram_def)
  have s5: "fst (process example_chatmode ''P'' ''T'' ''diagram'' ''overview''
          (Some [(''diagram'', PStr ''state'')]) ''Alice'' example_world) =
     Inr (Diagram ''ws/docs/diagrams/state_20250101_120000.mmd'' ''state''
            (state_content ''P'' ''Alice''))"
    by (simp add: eval_defs generate_state_diagram_def)
  from k m d rd e s1 s2 s3 s4 s5 show ?thesis by (intro conjI)
qed

section \<open>C6: the text overrides the context\<close>

text \<open>
  Claim C6: for a text with an equals sign, the parameters are the context overridden
  by the pairs of the text, the later lines over the earlier ones. So a key that the
  text gives has the text's (last) value whatever the context holds for it, and every
  other key has the context's value.
\<close>

theorem text_overrides_context:
  assumes "CHR ''='' \<in> set input_data"
  shows "parse_input input_data context =
           (case context of None \<Rightarrow> Map.empty | Some c \<Rightarrow> c) ++ map_of (rev (text_pairs input_data)) \<and>
         (\<forall>k v. map_of (rev (text_pairs input_data)) k = Some v \<longrightarrow>
                parse_input input_data context k = Some v) \<and>
         (\<forall>k. map_of (rev (text_pairs input_data)) k = None \<longrightarrow>
                parse_input input_data context k = (case context of None \<Rightarrow> None | Some c \<Rightarrow> c k))"
  using parse_input_structured [OF assms, of "context"]
  by (auto simp: map_add_def split: option.splits)

text \<open>
  A context with the depth \<^verbatim>\<open>overview\<close> and the artifact type \<^verbatim>\<open>doc\<close>, and a text
  that sets the depth twice: the last line wins, and the artifact type stays.
\<close>

theorem text_overrides_context_witness:
  "CHR ''='' \<in> set ''depth = subsystem\<newline>note\<newline>depth=interface-only'' \<and>
   map_of (rev (text_pairs ''depth = subsystem\<newline>note\<newline>depth=interface-only'')) ''depth'' =
     Some (PStr ''interface-only'') \<and>
   parse_input ''depth = subsystem\<newline>note\<newline>depth=interface-only''
     (Some [''depth'' \<mapsto> PStr ''overview'', ''artifactType'' \<mapsto> PStr ''doc'']) ''depth'' =
     Some (PStr ''interface-only'') \<and>
   map_of (rev (text_pairs ''depth = subsystem\<newline>note\<newline>depth=interface-only'')) ''artifactType'' = None \<and>
   parse_input ''depth = subsystem\<newline>note\<newline>depth=interface-only''
     (Some [''depth'' \<mapsto> PStr ''overview'', ''artifactType'' \<mapsto> PStr ''doc'']) ''artifactType'' =
     Some (PStr ''doc'')"
  using text_overrides_context
          [of "''depth = subsystem\<newline>note\<newline>depth=interface-only''"
              "Some [''depth'' \<mapsto> PStr ''overview'', ''artifactType'' \<mapsto> PStr ''doc'']"]
  by (simp add: parse_defs)

section \<open>C7: a missing required field\<close>

text \<open>
  Claim C7 says that, for each of \<^verbatim>\<open>prompt\<close>, \<^verbatim>\<open>targets\<close> and \<^verbatim>\<open>artifactType\<close>, the
  absence of the field from the merged parameters gives a failure whose message names
  that field. The three checks run in a fixed order and test for a true value, not for
  presence: with an empty prompt in the context and no targets anywhere, the field
  \<^verbatim>\<open>targets\<close> is absent, and the message names \<^verbatim>\<open>prompt\<close>.
\<close>

theorem missing_targets_reported_as_prompt:
  "parse_input ''Test input'' (Some example_context) ''targets'' = None \<and>
   parse_input ''Test input'' (Some example_context) ''prompt'' = Some (PStr []) \<and>
   agent_process example_agent ''Test input'' (Some example_context) example_world =
     Some (failure_envelope example_agent (ValueError (required_message ''prompt'')), example_world) \<and>
   error (failure_envelope example_agent (ValueError (required_message ''prompt''))) =
     Some (CHR 0x27 # ''prompt'' @ CHR 0x27 # '' parameter is required'') \<and>
   \<not> sublist ''targets'' (CHR 0x27 # ''prompt'' @ CHR 0x27 # '' parameter is required'')"
  by (simp add: parse_input_def agent_process_def process_try_def Let_def get_truthy_def
        failure_envelope_def required_message_def quoted_def example_context_def sublist_code)

text \<open>
  Claim C7 as amended: when one of the three fields is absent from the merged
  parameters, the adapter returns (it raises nothing, and leaves the world as it was) a
  mapping with \<^verbatim>\<open>success\<close> false whose error is the message of \<open>g\<close>, the first of
  \<^verbatim>\<open>prompt\<close>, \<^verbatim>\<open>targets\<close>, \<^verbatim>\<open>artifactType\<close> whose value is absent or false. That is the
  absent field itself whenever the fields checked before it hold true values.
\<close>

theorem missing_field_reported_in_order:
  assumes "params = parse_input input_data context"
    and "params ''prompt'' = None \<or> params ''targets'' = None \<or> params ''artifactType'' = None"
    and "g = (if \<not> get_truthy params ''prompt'' then ''prompt''
              else if \<not> get_truthy params ''targets'' then ''targets''
              else ''artifactType'')"
  shows "(\<exists>env. agent_process self input_data context w = Some (env, w) \<and>
                success env = False \<and> error env = Some (required_message g)) \<and>
         (params ''prompt'' = None \<longrightarrow> g = ''prompt'') \<and>
         (get_truthy params ''prompt'' \<and> params ''targets'' = None \<longrightarrow> g = ''targets'') \<and>
         (get_truthy params ''prompt'' \<and> get_truthy params ''targets'' \<and>
          params ''artifactType'' = None \<longrightarrow> g = ''artifactType'')"
  using assms
  by (auto simp: agent_process_def process_try_def Let_def get_truthy_def failure_envelope_def)

text \<open>A context with a prompt only: the targets are missing, and the message names them.\<close>

theorem missing_field_reported_in_order_witness:
  "(parse_input ''Test input'' (Some example_prompt_context) ''prompt'' = None \<or>
    parse_input ''Test input'' (Some example_prompt_context) ''targets'' = None \<or>
    parse_input ''Test input'' (Some example_prompt_context) ''artifactType'' = None) \<and>
   get_truthy (parse_input ''Test input'' (Some example_prompt_context)) ''prompt'' \<and>
   (\<exists>env. agent_process example_agent ''Test input'' (Some example_prompt_context) example_world =
            Some (env, example_world) \<and>
          success env = False \<and> error env = Some (required_message ''targets''))"
proof -
  have h: "parse_input ''Test input'' (Some example_prompt_context) ''prompt'' = None \<or>
    parse_input ''Test input'' (Some example_prompt_context) ''targets'' = None \<or>
    parse_input ''Test input'' (Some example_prompt_context) ''artifactType'' = None"
    by (simp add: parse_input_def example_prompt_context_def)
  have t: "get_truthy (parse_input ''Test input'' (Some example_prompt_context)) ''prompt''"
    by (simp add: parse_input_def example_prompt_context_def get_truthy_def)
  have g: "''targets'' =
      (if \<not> get_truthy (parse_input ''Test input'' (Some example_prompt_context)) ''prompt'' then ''prompt''
       else if \<not> get_truthy (parse_input ''Test input'' (Some example_prompt_context)) ''targets''
       then ''targets'' else ''artifactType'')"
    by (simp add: parse_input_def example_prompt_context_def get_truthy_def)
  from missing_field_reported_in_order [OF refl h g, of example_agent example_world] h t
  show ?thesis by simp
qed

section \<open>C8: the content depends on the request alone\<close>

lemma branch_content_deterministic:
  assumes "fst (run_branch b at self1 p t d c u w1) = Inr r1"
    and "fst (run_branch b at self2 p t d c u w2) = Inr r2"
  shows "content r1 = content r2"
proof (cases b)
  case DocBranch
  have "content r1 = create_documentation_content p t d (scan_codebase self1 t) u"
    using assms(1) documentation_result [of self1 p t d c u w1 r1] unfolding DocBranch by auto
  moreover have "content r2 = create_documentation_content p t d (scan_codebase self2 t) u"
    using assms(2) documentation_result [of self2 p t d c u w2 r2] unfolding DocBranch by auto
  ultimately show ?thesis by (simp add: scan_codebase_def)
next
  case DiagramBranch
  have g1: "fst (generate_diagram self1 p t d c u w1) = Inr r1"
    using assms(1) unfolding DiagramBranch by simp
  have g2: "fst (generate_diagram self2 p t d c u w2) = Inr r2"
    using assms(2) unfolding DiagramBranch by simp
  from diagram_cases [of p t d c u] show ?thesis
  proof (elim disjE)
    assume a: "\<forall>self w. generate_diagram self p t d c u w = generate_sequence_diagram self p t d c u w"
    show ?thesis
      using sequence_result [of self1 p t d c u w1 r1] sequence_result [of self2 p t d c u w2 r2]
        g1 g2 a by simp
  next
    assume a: "\<forall>self w. generate_diagram self p t d c u w = generate_flowchart_diagram self p t d c u w"
    show ?thesis
      using flowchart_result [of self1 p t d c u w1 r1] flowchart_result [of self2 p t d c u w2 r2]
        g1 g2 a by simp
  next
    assume a: "\<forall>self w. generate_diagram self p t d c u w = generate_class_diagram self p t d c u w"
    show ?thesis
      using class_result [of self1 p t d c u w1 r1] class_result [of self2 p t d c u w2 r2]
        g1 g2 a by simp
  next
    assume a: "\<forall>self w. generate_diagram self p t d c u w = generate_er_diagram self p t d c u w"
    show ?thesis
      using er_result [of self1 p t d c u w1 r1] er_result [of self2 p t d c u w2 r2]
        g1 g2 a by simp
  next
    assume a: "\<forall>self w. generate_diagram self p t d c u w = generate_state_diagram self p t d c u w"
    show ?thesis
      using state_result [of self1 p t d c u w1 r1] state_result [of self2 p t d c u w2 r2]
        g1 g2 a by simp
  qed
next
  case TestcasesBranch
  show ?thesis
    using assms testcases_result [of self1 p t d c u w1 r1] testcases_result [of self2 p t d c u w2 r2]
    unfolding TestcasesBranch by simp
next
  case GapscanBranch
  show ?thesis
    using assms gapscan_result [of self1 p t d c u w1 r1] gapscan_result [of self2 p t d c u w2 r2]
    unfolding GapscanBranch by simp
next
  case UsecasesBranch
  have "content r1 = usecases_content p t u"
    using assms(1) usecases_result [of self1 p t d c u w1 r1] unfolding UsecasesBranch by auto
  moreover have "content r2 = usecases_content p t u"
    using assms(2) usecases_result [of self2 p t d c u w2 r2] unfolding UsecasesBranch by auto
  ultimately show ?thesis by simp
next
  case UnsupportedBranch
  then show ?thesis using assms by simp
qed

text \<open>
  Claim C8: two calls of \<^verbatim>\<open>process\<close> with the same arguments that both return, return the
  same content, whatever the two chat modes, file systems and clocks are: the content
  is a function of the request alone. The scan of the code base returns the same empty
  structure for every target, and the text of the documentation does not depend on the
  scan result it is given.
\<close>

theorem content_is_deterministic:
  "(fst (process self1 prompt targets artifact_type depth constraints user_name w1) = Inr r1 \<and>
    fst (process self2 prompt targets artifact_type depth constraints user_name w2) = Inr r2 \<longrightarrow>
      content r1 = content r2) \<and>
   scan_codebase self1 targets1 =
     PDict [(''files_found'', PList []), (''components'', PList []),
            (''interfaces'', PList []), (''dependencies'', PList [])] \<and>
   create_documentation_content prompt targets depth scan_result1 user_name =
     create_documentation_content prompt targets depth scan_result2 user_name"
proof (intro conjI impI)
  assume a: "fst (process self1 prompt targets artifact_type depth constraints user_name w1) = Inr r1 \<and>
    fst (process self2 prompt targets artifact_type depth constraints user_name w2) = Inr r2"
  from a process_runs_branch [of self1 prompt targets artifact_type depth constraints user_name w1 r1]
  have b1: "fst (run_branch (select_branch artifact_type) artifact_type self1 prompt targets depth
                  constraints user_name (snd (ensure_directories self1 w1))) = Inr r1"
    by simp
  from a process_runs_branch [of self2 prompt targets artifact_type depth constraints user_name w2 r2]
  have b2: "fst (run_branch (select_branch artifact_type) artifact_type self2 prompt targets depth
                  constraints user_name (snd (ensure_directories self2 w2))) = Inr r2"
    by simp
  from b1 b2 show "content r1 = content r2"
    by (rule branch_content_deterministic)
next
  show "scan_codebase self1 targets1 =
     PDict [(''files_found'', PList []), (''components'', PList []),
            (''interfaces'', PList []), (''dependencies'', PList [])]"
    by (simp add: scan_codebase_def)
next
  show "create_documentation_content prompt targets depth scan_result1 user_name =
     create_documentation_content prompt targets depth scan_result2 user_name"
    unfolding create_documentation_content_def by (rule refl)
qed

text \<open>
  The same request on the example workspace at two different times: two file names, one
  content.
\<close>

theorem content_is_deterministic_witness:
  "fst (process example_chatmode ''P'' ''T'' ''testcases'' ''overview'' None ''Alice'' example_world) =
     Inr (Document ''ws/docs/testcases_20250101_120000.md'' [] (testcases_content ''P'' ''T'' ''Alice'')) \<and>
   fst (process example_chatmode ''P'' ''T'' ''testcases'' ''overview'' None ''Alice'' example_later_world) =
     Inr (Document ''ws/docs/testcases_20260704_093015.md'' [] (testcases_content ''P'' ''T'' ''Alice'')) \<and>
   content (Document ''ws/docs/testcases_20250101_120000.md'' [] (testcases_content ''P'' ''T'' ''Alice'')) =
   content (Document ''ws/docs/testcases_20260704_093015.md'' [] (testcases_content ''P'' ''T'' ''Alice''))"
proof -
  have a: "fst (process example_chatmode ''P'' ''T'' ''testcases'' ''overview'' None ''Alice'' example_world) =
     Inr (Document ''ws/docs/testcases_20250101_120000.md'' [] (testcases_content ''P'' ''T'' ''Alice''))"
    by (simp add: eval_defs generate_testcases_def)
  have b: "fst (process example_chatmode ''P'' ''T'' ''testcases'' ''overview'' None ''Alice'' example_later_world) =
     Inr (Document ''ws/docs/testcases_20260704_093015.md'' [] (testcases_content ''P'' ''T'' ''Alice''))"
    by (simp add: eval_defs generate_testcases_def example_later_world_def)
  from a b content_is_deterministic
         [where ?self1.0 = example_chatmode and prompt = "''P''" and targets = "''T''"
            and artifact_type = "''testcases''" and depth = "''overview''" and constraints = None
            and user_name = "''Alice''" and ?w1.0 = example_world and ?self2.0 = example_chatmode
            and ?w2.0 = example_later_world
            and ?r1.0 = "Document ''ws/docs/testcases_20250101_120000.md'' [] (testcases_content ''P'' ''T'' ''Alice'')"
            and ?r2.0 = "Document ''ws/docs/testcases_20260704_093015.md'' [] (testcases_content ''P'' ''T'' ''Alice'')"]
  show ?thesis by simp
qed

section \<open>C9: the last branch of the dispatcher\<close>

text \<open>
  Claim C9: an artifact type that is one of the five selects one of the five generator
  branches, never the last branch, and \<^verbatim>\<open>process\<close> never raises the error of that
  branch.
\<close>

theorem unsupported_branch_unreachable:
  assumes "artifact_type \<in> set artifact_types"
  shows "select_branch artifact_type \<in>
           {DocBranch, DiagramBranch, TestcasesBranch, GapscanBranch, UsecasesBranch} \<and>
         select_branch artifact_type \<noteq> UnsupportedBranch \<and>
         fst (process self prompt targets artifact_type depth constraints user_name w) \<noteq>
           Inl (ValueError (''Unsupported artifact_type: '' @ artifact_type))"
proof -
  have b: "select_branch artifact_type \<in>
           {DocBranch, DiagramBranch, TestcasesBranch, GapscanBranch, UsecasesBranch}"
    using assms by (rule select_branch_valid)
  then have nb: "select_branch artifact_type \<noteq> UnsupportedBranch" by auto
  have p: "fst (process self prompt targets artifact_type depth constraints user_name w) \<noteq>
           Inl (ValueError (''Unsupported artifact_type: '' @ artifact_type))"
  proof
    assume a: "fst (process self prompt targets artifact_type depth constraints user_name w) =
           Inl (ValueError (''Unsupported artifact_type: '' @ artifact_type))"
    show False
    proof (cases "depth \<in> set depths")
      case False
      then show False using a assms by (simp add: process_def)
    next
      case True
      obtain x w1 where e: "ensure_directories self w = (x, w1)"
        by (cases "ensure_directories self w")
      show False
      proof (cases x)
        case (Inl err)
        then have "err = ValueError (''Unsupported artifact_type: '' @ artifact_type)"
          using a assms True e by (simp add: process_def)
        then show False using e Inl ensure_directories_no_ValueError by blast
      next
        case (Inr y)
        then have "fst (run_branch (select_branch artifact_type) artifact_type self prompt targets
                     depth constraints user_name w1) =
                   Inl (ValueError (''Unsupported artifact_type: '' @ artifact_type))"
          using a assms True e by (simp add: process_def)
        then obtain w2 where "run_branch (select_branch artifact_type) artifact_type self prompt
                     targets depth constraints user_name w1 =
                   (Inl (ValueError (''Unsupported artifact_type: '' @ artifact_type)), w2)"
          by (cases "run_branch (select_branch artifact_type) artifact_type self prompt
                     targets depth constraints user_name w1") auto
        then show False using nb by (rule run_branch_no_ValueError [rotated])
      qed
    qed
  qed
  from b nb p show ?thesis by simp
qed

text \<open>The artifact type \<^verbatim>\<open>gapscan\<close> on the example workspace.\<close>

theorem unsupported_branch_unreachable_witness:
  "''gapscan'' \<in> set artifact_types \<and> select_branch ''gapscan'' = GapscanBranch \<and>
   fst (process example_chatmode ''P'' ''T'' ''gapscan'' ''overview'' None ''Alice'' example_world) \<noteq>
     Inl (ValueError ''Unsupported artifact_type: gapscan'')"
  using unsupported_branch_unreachable
          [of "''gapscan''" example_chatmode "''P''" "''T''" "''overview''" None "''Alice''" example_world]
  by (simp add: artifact_types_def select_branch_def)

section \<open>C10: a text with an equals sign is not the prompt\<close>

text \<open>
  Claim C10 says that a text with an equals sign in it, with no prompt in the context,
  always ends in the failure for the missing prompt. A line of the text whose key is
  \<^verbatim>\<open>prompt\<close> supplies the prompt: for the two-line text \<^verbatim>\<open>Why does\<close> / \<^verbatim>\<open>prompt = 5 fail?\<close>
  and a context that names targets and artifact type only, the adapter generates the
  test cases for the prompt \<^verbatim>\<open>5 fail?\<close>; with no context at all, the failure is the one for
  the missing targets.
\<close>

theorem prompt_line_in_text_is_the_prompt:
  "CHR ''='' \<in> set ''Why does\<newline>prompt = 5 fail?'' \<and>
   example_targets_context ''prompt'' = None \<and>
   map_option fst (agent_process example_agent ''Why does\<newline>prompt = 5 fail?''
                     (Some example_targets_context) example_world) =
     Some (success_envelope example_agent
             (Document ''ws/docs/testcases_20250101_120000.md'' []
                (testcases_content ''5 fail?'' ''T'' ''User''))
             ''testcases'' ''T'' ''overview'') \<and>
   success (success_envelope example_agent
             (Document ''ws/docs/testcases_20250101_120000.md'' []
                (testcases_content ''5 fail?'' ''T'' ''User''))
             ''testcases'' ''T'' ''overview'') = True \<and>
   map_option fst (agent_process example_agent ''Why does\<newline>prompt = 5 fail?'' None example_world) =
     Some (failure_envelope example_agent (ValueError (required_message ''targets'')))"
  by (simp add: agent_process_def process_try_def parse_input_def parse_line_def strip_def
        is_space_def split_key_def split_value_def get_truthy_def get_default_def
        example_targets_context_def example_agent_def initialize_def
        create_architectural_documentation_agent_def success_envelope_def
        process_def artifact_types_def depths_def ensure_directories_def mkdir_exist_ok_def
        example_world_def init_chatmode_def path_child_def parent_def select_branch_def
        now_stamp_def write_text_def generate_testcases_def Let_def)

text \<open>
  Claim C10 as amended: when the text holds an equals sign, the adapter never takes the
  text for the prompt: the prompt it passes on is the whole text only if the context
  itself gave that very prompt. And when the context gives no prompt and none of the
  lines of the text has the key \<^verbatim>\<open>prompt\<close>, the adapter returns the failure for the missing
  prompt, and nothing is generated: the world is unchanged.
\<close>

theorem equals_sign_text_is_not_the_prompt:
  assumes "CHR ''='' \<in> set input_data"
  shows "(parse_input input_data context ''prompt'' = Some (PStr input_data) \<longrightarrow>
            (\<exists>c. context = Some c \<and> c ''prompt'' = Some (PStr input_data))) \<and>
         ((case context of None \<Rightarrow> True | Some c \<Rightarrow> c ''prompt'' = None) \<and>
          ''prompt'' \<notin> fst ` set (text_pairs input_data) \<longrightarrow>
            agent_process self input_data context w =
              Some (failure_envelope self (ValueError (required_message ''prompt'')), w))"
proof (intro conjI impI)
  assume "parse_input input_data context ''prompt'' = Some (PStr input_data)"
  with assms show "\<exists>c. context = Some c \<and> c ''prompt'' = Some (PStr input_data)"
    by (rule text_never_prompt)
next
  assume a: "(case context of None \<Rightarrow> True | Some c \<Rightarrow> c ''prompt'' = None) \<and>
          ''prompt'' \<notin> fst ` set (text_pairs input_data)"
  then have "map_of (rev (text_pairs input_data)) ''prompt'' = None"
    by (simp add: map_of_eq_None_iff)
  then have "parse_input input_data context ''prompt'' = None"
    using a parse_input_structured [OF assms, of "context"]
    by (auto simp: map_add_def split: option.splits)
  then have "\<not> get_truthy (parse_input input_data context) ''prompt''"
    by (simp add: get_truthy_def)
  then show "agent_process self input_data context w =
              Some (failure_envelope self (ValueError (required_message ''prompt'')), w)"
    by (rule agent_missing_prompt)
qed

text \<open>A sentence with an equals sign in it, and no context.\<close>

theorem equals_sign_text_is_not_the_prompt_witness:
  "CHR ''='' \<in> set ''Explain why x=y holds'' \<and>
   ''prompt'' \<notin> fst ` set (text_pairs ''Explain why x=y holds'') \<and>
   agent_process example_agent ''Explain why x=y holds'' None example_world =
     Some (failure_envelope example_agent (ValueError (required_message ''prompt'')), example_world)"
  using equals_sign_text_is_not_the_prompt [of "''Explain why x=y holds''" None example_agent example_world]
  by (simp add: parse_defs)

end
